theory Spec2Isabelle
  imports Complex_Main "HOL-Library.Sublist"
begin

section \<open>JavaScript strings\<close>

text \<open>
  A JavaScript string is a sequence of UTF-16 code units; \<open>length\<close>, \<open>includes\<close> and
  \<open>substring\<close> all count code units. The keyword tables of the routing engine are written in
  Russian and English, so a string is modelled as the list of its code units. Text that is
  plain ASCII is written with \<open>ascii\<close>; a Cyrillic letter is written by its transliterated
  name (\<open>cy_a\<close> is U+0430, \<open>CY_A\<close> is U+0410), and any other unit by its number
  (32 is the space, 10 the line feed, 34 the double quote).
\<close>

type_synonym jstring = "nat list"

text \<open>A UUID is modelled as a natural number.\<close>

type_synonym uuid = nat

definition ascii :: "string \<Rightarrow> jstring" where
  "ascii s = map of_char s"

abbreviation cy_a :: nat where "cy_a \<equiv> 1072"
abbreviation CY_A :: nat where "CY_A \<equiv> 1040"
abbreviation cy_b :: nat where "cy_b \<equiv> 1073"
abbreviation CY_B :: nat where "CY_B \<equiv> 1041"
abbreviation cy_v :: nat where "cy_v \<equiv> 1074"
abbreviation CY_V :: nat where "CY_V \<equiv> 1042"
abbreviation cy_g :: nat where "cy_g \<equiv> 1075"
abbreviation CY_G :: nat where "CY_G \<equiv> 1043"
abbreviation cy_d :: nat where "cy_d \<equiv> 1076"
abbreviation CY_D :: nat where "CY_D \<equiv> 1044"
abbreviation cy_e :: nat where "cy_e \<equiv> 1077"
abbreviation CY_E :: nat where "CY_E \<equiv> 1045"
abbreviation cy_yo :: nat where "cy_yo \<equiv> 1105"
abbreviation CY_YO :: nat where "CY_YO \<equiv> 1025"
abbreviation cy_zh :: nat where "cy_zh \<equiv> 1078"
abbreviation CY_ZH :: nat where "CY_ZH \<equiv> 1046"
abbreviation cy_z :: nat where "cy_z \<equiv> 1079"
abbreviation CY_Z :: nat where "CY_Z \<equiv> 1047"
abbreviation cy_i :: nat where "cy_i \<equiv> 1080"
abbreviation CY_I :: nat where "CY_I \<equiv> 1048"
abbreviation cy_j :: nat where "cy_j \<equiv> 1081"
abbreviation CY_J :: nat where "CY_J \<equiv> 1049"
abbreviation cy_k :: nat where "cy_k \<equiv> 1082"
abbreviation CY_K :: nat where "CY_K \<equiv> 1050"
abbreviation cy_l :: nat where "cy_l \<equiv> 1083"
abbreviation CY_L :: nat where "CY_L \<equiv> 1051"
abbreviation cy_m :: nat where "cy_m \<equiv> 1084"
abbreviation CY_M :: nat where "CY_M \<equiv> 1052"
abbreviation cy_n :: nat where "cy_n \<equiv> 1085"
abbreviation CY_N :: nat where "CY_N \<equiv> 1053"
abbreviation cy_o :: nat where "cy_o \<equiv> 1086"
abbreviation CY_O :: nat where "CY_O \<equiv> 1054"
abbreviation cy_p :: nat where "cy_p \<equiv> 1087"
abbreviation CY_P :: nat where "CY_P \<equiv> 1055"
abbreviation cy_r :: nat where "cy_r \<equiv> 1088"
abbreviation CY_R :: nat where "CY_R \<equiv> 1056"
abbreviation cy_s :: nat where "cy_s \<equiv> 1089"
abbreviation CY_S :: nat where "CY_S \<equiv> 1057"
abbreviation cy_t :: nat where "cy_t \<equiv> 1090"
abbreviation CY_T :: nat where "CY_T \<equiv> 1058"
abbreviation cy_u :: nat where "cy_u \<equiv> 1091"
abbreviation CY_U :: nat where "CY_U \<equiv> 1059"
abbreviation cy_f :: nat where "cy_f \<equiv> 1092"
abbreviation CY_F :: nat where "CY_F \<equiv> 1060"
abbreviation cy_h :: nat where "cy_h \<equiv> 1093"
abbreviation CY_H :: nat where "CY_H \<equiv> 1061"
abbreviation cy_c :: nat where "cy_c \<equiv> 1094"
abbreviation CY_C :: nat where "CY_C \<equiv> 1062"
abbreviation cy_ch :: nat where "cy_ch \<equiv> 1095"
abbreviation CY_CH :: nat where "CY_CH \<equiv> 1063"
abbreviation cy_sh :: nat where "cy_sh \<equiv> 1096"
abbreviation CY_SH :: nat where "CY_SH \<equiv> 1064"
abbreviation cy_sch :: nat where "cy_sch \<equiv> 1097"
abbreviation CY_SCH :: nat where "CY_SCH \<equiv> 1065"
abbreviation cy_hard :: nat where "cy_hard \<equiv> 1098"
abbreviation CY_HARD :: nat where "CY_HARD \<equiv> 1066"
abbreviation cy_y :: nat where "cy_y \<equiv> 1099"
abbreviation CY_Y :: nat where "CY_Y \<equiv> 1067"
abbreviation cy_soft :: nat where "cy_soft \<equiv> 1100"
abbreviation CY_SOFT :: nat where "CY_SOFT \<equiv> 1068"
abbreviation cy_eh :: nat where "cy_eh \<equiv> 1101"
abbreviation CY_EH :: nat where "CY_EH \<equiv> 1069"
abbreviation cy_yu :: nat where "cy_yu \<equiv> 1102"
abbreviation CY_YU :: nat where "CY_YU \<equiv> 1070"
abbreviation cy_ya :: nat where "cy_ya \<equiv> 1103"
abbreviation CY_YA :: nat where "CY_YA \<equiv> 1071"

text \<open>
  \<open>String.prototype.toLowerCase\<close>, on the Basic Latin, Latin-1 and Cyrillic blocks (the
  scripts of the keyword tables); every other code unit is left as it is. The universal
  theorems below never unfold this definition: they hold for any lower-casing function.
\<close>

definition toLowerCaseUnit :: "nat \<Rightarrow> nat" where
  "toLowerCaseUnit c =
     (if 65 \<le> c \<and> c \<le> 90 then c + 32
      else if 192 \<le> c \<and> c \<le> 222 \<and> c \<noteq> 215 then c + 32
      else if 1040 \<le> c \<and> c \<le> 1071 then c + 32
      else if 1024 \<le> c \<and> c \<le> 1039 then c + 80
      else c)"

definition toLowerCase :: "jstring \<Rightarrow> jstring" where
  "toLowerCase s = map toLowerCaseUnit s"

text \<open>\<open>s.includes(p)\<close>: \<open>p\<close> occurs in \<open>s\<close> as a contiguous run of code units.\<close>

fun includes_js :: "jstring \<Rightarrow> jstring \<Rightarrow> bool" where
  "includes_js [] p = (p = [])"
| "includes_js (c # s) p = (prefix p (c # s) \<or> includes_js s p)"

text \<open>\<open>keywords.some(k => s.includes(k))\<close>.\<close>

definition someIncluded :: "jstring \<Rightarrow> jstring list \<Rightarrow> bool" where
  "someIncluded s keywords = list_ex (\<lambda>k. includes_js s k) keywords"

text \<open>\<open>String(n)\<close> for an integer \<open>n\<close>: its decimal digits, with a minus sign below zero.\<close>

fun digits :: "nat \<Rightarrow> jstring" where
  "digits n = (if n < 10 then [48 + n] else digits (n div 10) @ [48 + n mod 10])"

declare digits.simps [simp del]

definition numberToString :: "int \<Rightarrow> jstring" where
  "numberToString n = (if n < 0 then 45 # digits (nat (- n)) else digits (nat n))"

section \<open>Agents\<close>

text \<open>
  A row of the \<open>agents\<close> table. Fields whose names are shared by several tables carry the
  table's initial (\<open>id_a\<close> is the agent's \<open>id\<close>).
\<close>

record Agent =
  id_a :: uuid
  user_id_a :: uuid
  name_a :: jstring
  system_prompt :: jstring
  role_a :: string
  performance_metrics :: jstring

text \<open>\<open>agents[0]?.id\<close>: the first row's id, or \<open>undefined\<close>.\<close>

definition firstId :: "Agent list \<Rightarrow> uuid option" where
  "firstId rows = (case rows of [] \<Rightarrow> None | a # _ \<Rightarrow> Some (id_a a))"

section \<open>Intent classification (useAdvancedIntentClassification)\<close>

datatype priority = Low | Medium | High | Urgent

definition priorityName :: "priority \<Rightarrow> string" where
  "priorityName p = (case p of Low \<Rightarrow> ''low'' | Medium \<Rightarrow> ''medium'' | High \<Rightarrow> ''high'' | Urgent \<Rightarrow> ''urgent'')"

record IntentResult =
  intent :: string
  confidence :: rat
  suggestedAgentId :: "uuid option"
  priority :: priority
  requiresEscalation :: bool
  autoResponse :: "jstring option"
  reasoning :: jstring

(* 'kriticheskaya oshibka', 'sajt ne rabotaet', 'sistema upala', 'critical error', 'site
   down', 'system crash', 'urgent', 'srochno', 'emergency' *)
definition urgentPatterns :: "jstring list" where
  "urgentPatterns =
  [[cy_k, cy_r, cy_i, cy_t, cy_i, cy_ch, cy_e, cy_s, cy_k, cy_a, cy_ya, 32, cy_o, cy_sh,
      cy_i, cy_b, cy_k, cy_a],
   [cy_s, cy_a, cy_j, cy_t, 32, cy_n, cy_e, 32, cy_r, cy_a, cy_b, cy_o, cy_t, cy_a,
      cy_e, cy_t],
   [cy_s, cy_i, cy_s, cy_t, cy_e, cy_m, cy_a, 32, cy_u, cy_p, cy_a, cy_l, cy_a],
   ascii ''critical error'',
   ascii ''site down'',
   ascii ''system crash'',
   ascii ''urgent'',
   [cy_s, cy_r, cy_o, cy_ch, cy_n, cy_o],
   ascii ''emergency'']"

(* 'ne rabotaet', 'sistema upala', 'oshibka 500', 'baza dannyh', 'not working', 'system
   down', '500 error', 'database error' *)
definition technicalPatterns_high :: "jstring list" where
  "technicalPatterns_high =
  [[cy_n, cy_e, 32, cy_r, cy_a, cy_b, cy_o, cy_t, cy_a, cy_e, cy_t],
   [cy_s, cy_i, cy_s, cy_t, cy_e, cy_m, cy_a, 32, cy_u, cy_p, cy_a, cy_l, cy_a],
   [cy_o, cy_sh, cy_i, cy_b, cy_k, cy_a, 32, 53, 48, 48],
   [cy_b, cy_a, cy_z, cy_a, 32, cy_d, cy_a, cy_n, cy_n, cy_y, cy_h],
   ascii ''not working'',
   ascii ''system down'',
   ascii ''500 error'',
   ascii ''database error'']"

(* 'problema s zagruzkoj', 'medlenno rabotaet', 'timeout', 'loading issues', 'slow
   performance', 'connection timeout' *)
definition technicalPatterns_medium :: "jstring list" where
  "technicalPatterns_medium =
  [[cy_p, cy_r, cy_o, cy_b, cy_l, cy_e, cy_m, cy_a, 32, cy_s, 32, cy_z, cy_a, cy_g,
      cy_r, cy_u, cy_z, cy_k, cy_o, cy_j],
   [cy_m, cy_e, cy_d, cy_l, cy_e, cy_n, cy_n, cy_o, 32, cy_r, cy_a, cy_b, cy_o, cy_t,
      cy_a, cy_e, cy_t],
   ascii ''timeout'',
   ascii ''loading issues'',
   ascii ''slow performance'',
   ascii ''connection timeout'']"

(* 'kak nastroit'', 'how to configure', 'vopros po funkcii', 'question about feature', 'help
   with setup' *)
definition technicalPatterns_low :: "jstring list" where
  "technicalPatterns_low =
  [[cy_k, cy_a, cy_k, 32, cy_n, cy_a, cy_s, cy_t, cy_r, cy_o, cy_i, cy_t, cy_soft],
   ascii ''how to configure'',
   [cy_v, cy_o, cy_p, cy_r, cy_o, cy_s, 32, cy_p, cy_o, 32, cy_f, cy_u, cy_n, cy_k,
      cy_c, cy_i, cy_i],
   ascii ''question about feature'',
   ascii ''help with setup'']"

(* 'dokument', 'fajl', 'pdf', 'zagruzit'', 'poisk po dokumentu', 'document', 'file',
   'search', 'upload', 'najti v dokumente', 'v dokumentacii', 'in documentation' *)
definition documentPatterns :: "jstring list" where
  "documentPatterns =
  [[cy_d, cy_o, cy_k, cy_u, cy_m, cy_e, cy_n, cy_t],
   [cy_f, cy_a, cy_j, cy_l],
   ascii ''pdf'',
   [cy_z, cy_a, cy_g, cy_r, cy_u, cy_z, cy_i, cy_t, cy_soft],
   [cy_p, cy_o, cy_i, cy_s, cy_k, 32, cy_p, cy_o, 32, cy_d, cy_o, cy_k, cy_u, cy_m,
      cy_e, cy_n, cy_t, cy_u],
   ascii ''document'',
   ascii ''file'',
   ascii ''search'',
   ascii ''upload'',
   [cy_n, cy_a, cy_j, cy_t, cy_i, 32, cy_v, 32, cy_d, cy_o, cy_k, cy_u, cy_m, cy_e,
      cy_n, cy_t, cy_e],
   [cy_v, 32, cy_d, cy_o, cy_k, cy_u, cy_m, cy_e, cy_n, cy_t, cy_a, cy_c, cy_i, cy_i],
   ascii ''in documentation'']"

(* 'issledovanie', 'analiz', 'izuchit'', 'najti informaciyu', 'sravnit'', 'research',
   'analysis', 'study', 'compare', 'analyze', 'investigate' *)
definition researchPatterns :: "jstring list" where
  "researchPatterns =
  [[cy_i, cy_s, cy_s, cy_l, cy_e, cy_d, cy_o, cy_v, cy_a, cy_n, cy_i, cy_e],
   [cy_a, cy_n, cy_a, cy_l, cy_i, cy_z],
   [cy_i, cy_z, cy_u, cy_ch, cy_i, cy_t, cy_soft],
   [cy_n, cy_a, cy_j, cy_t, cy_i, 32, cy_i, cy_n, cy_f, cy_o, cy_r, cy_m, cy_a, cy_c,
      cy_i, cy_yu],
   [cy_s, cy_r, cy_a, cy_v, cy_n, cy_i, cy_t, cy_soft],
   ascii ''research'',
   ascii ''analysis'',
   ascii ''study'',
   ascii ''compare'',
   ascii ''analyze'',
   ascii ''investigate'']"

(* 'dobavit' funkciyu', 'novaya vozmozhnost'', 'feature request', 'add feature',
   'enhancement', 'improvement', 'predlozhenie' *)
definition featurePatterns :: "jstring list" where
  "featurePatterns =
  [[cy_d, cy_o, cy_b, cy_a, cy_v, cy_i, cy_t, cy_soft, 32, cy_f, cy_u, cy_n, cy_k, cy_c,
      cy_i, cy_yu],
   [cy_n, cy_o, cy_v, cy_a, cy_ya, 32, cy_v, cy_o, cy_z, cy_m, cy_o, cy_zh, cy_n, cy_o,
      cy_s, cy_t, cy_soft],
   ascii ''feature request'',
   ascii ''add feature'',
   ascii ''enhancement'',
   ascii ''improvement'',
   [cy_p, cy_r, cy_e, cy_d, cy_l, cy_o, cy_zh, cy_e, cy_n, cy_i, cy_e]]"

(* 'bag', 'oshibka v kode', 'nepravil'no rabotaet', 'bug', 'code error', 'incorrect
   behavior', 'broken feature' *)
definition bugPatterns :: "jstring list" where
  "bugPatterns =
  [[cy_b, cy_a, cy_g],
   [cy_o, cy_sh, cy_i, cy_b, cy_k, cy_a, 32, cy_v, 32, cy_k, cy_o, cy_d, cy_e],
   [cy_n, cy_e, cy_p, cy_r, cy_a, cy_v, cy_i, cy_l, cy_soft, cy_n, cy_o, 32, cy_r, cy_a,
      cy_b, cy_o, cy_t, cy_a, cy_e, cy_t],
   ascii ''bug'',
   ascii ''code error'',
   ascii ''incorrect behavior'',
   ascii ''broken feature'']"

(* 'Obnaruzhena kriticheskaya problema. Perenapravlyayu k agentu podderzhki s vysokim
   prioritetom.' *)
definition autoResponse_urgent :: jstring where
  "autoResponse_urgent =
     [CY_O, cy_b, cy_n, cy_a, cy_r, cy_u, cy_zh, cy_e, cy_n, cy_a, 32, cy_k, cy_r, cy_i,
      cy_t, cy_i, cy_ch, cy_e, cy_s, cy_k, cy_a, cy_ya, 32, cy_p, cy_r, cy_o, cy_b, cy_l,
      cy_e, cy_m, cy_a, 46, 32, CY_P, cy_e, cy_r, cy_e, cy_n, cy_a, cy_p, cy_r, cy_a,
      cy_v, cy_l, cy_ya, cy_yu, 32, cy_k, 32, cy_a, cy_g, cy_e, cy_n, cy_t, cy_u, 32,
      cy_p, cy_o, cy_d, cy_d, cy_e, cy_r, cy_zh, cy_k, cy_i, 32, cy_s, 32, cy_v, cy_y,
      cy_s, cy_o, cy_k, cy_i, cy_m, 32, cy_p, cy_r, cy_i, cy_o, cy_r, cy_i, cy_t, cy_e,
      cy_t, cy_o, cy_m, 46]"

(* 'Spasibo za predlozhenie! Vash zapros na novuyu funkciyu peredan komande razrabotki dlya
   rassmotreniya.' *)
definition autoResponse_feature :: jstring where
  "autoResponse_feature =
     [CY_S, cy_p, cy_a, cy_s, cy_i, cy_b, cy_o, 32, cy_z, cy_a, 32, cy_p, cy_r, cy_e,
      cy_d, cy_l, cy_o, cy_zh, cy_e, cy_n, cy_i, cy_e, 33, 32, CY_V, cy_a, cy_sh, 32,
      cy_z, cy_a, cy_p, cy_r, cy_o, cy_s, 32, cy_n, cy_a, 32, cy_n, cy_o, cy_v, cy_u,
      cy_yu, 32, cy_f, cy_u, cy_n, cy_k, cy_c, cy_i, cy_yu, 32, cy_p, cy_e, cy_r, cy_e,
      cy_d, cy_a, cy_n, 32, cy_k, cy_o, cy_m, cy_a, cy_n, cy_d, cy_e, 32, cy_r, cy_a,
      cy_z, cy_r, cy_a, cy_b, cy_o, cy_t, cy_k, cy_i, 32, cy_d, cy_l, cy_ya, 32, cy_r,
      cy_a, cy_s, cy_s, cy_m, cy_o, cy_t, cy_r, cy_e, cy_n, cy_i, cy_ya, 46]"

(* 'Obnaruzhen otchet ob oshibke. Sobirayu dopolnitel'nuyu informaciyu dlya diagnostiki.' *)
definition autoResponse_bug :: jstring where
  "autoResponse_bug =
     [CY_O, cy_b, cy_n, cy_a, cy_r, cy_u, cy_zh, cy_e, cy_n, 32, cy_o, cy_t, cy_ch, cy_e,
      cy_t, 32, cy_o, cy_b, 32, cy_o, cy_sh, cy_i, cy_b, cy_k, cy_e, 46, 32, CY_S,
      cy_o, cy_b, cy_i, cy_r, cy_a, cy_yu, 32, cy_d, cy_o, cy_p, cy_o, cy_l, cy_n, cy_i,
      cy_t, cy_e, cy_l, cy_soft, cy_n, cy_u, cy_yu, 32, cy_i, cy_n, cy_f, cy_o, cy_r, cy_m,
      cy_a, cy_c, cy_i, cy_yu, 32, cy_d, cy_l, cy_ya, 32, cy_d, cy_i, cy_a, cy_g, cy_n,
      cy_o, cy_s, cy_t, cy_i, cy_k, cy_i, 46]"

text \<open>
  The hook takes \<open>getAgentsByRole\<close> from the object \<open>useAgents()\<close> returns. Neither version
  of \<open>useAgents\<close> in the sources returns a member of that name, so the destructured value is
  \<open>undefined\<close> and \<open>await getAgentsByRole(role)\<close> throws a \<open>TypeError\<close>, which
  \<open>classifyIntent\<close> does not catch (its \<open>try\<close> has a \<open>finally\<close> and no \<open>catch\<close>): the
  promise is rejected. The member is an option here: \<open>None\<close> is \<open>undefined\<close>, as the sources
  have it, and \<open>Some f\<close> is a hook that does provide the lookup \<open>f\<close>.
\<close>

datatype js_error = TypeError

type_synonym role_lookup = "(string \<Rightarrow> Agent list) option"

definition useAgents_getAgentsByRole :: role_lookup where
  "useAgents_getAgentsByRole = None"

text \<open>
  \<open>const agents = await getAgentsByRole(role); suggestedAgentId = agents[0]?.id\<close>, followed
  by the rest of the branch, which builds the result from the suggested agent.
\<close>

definition withAgentsByRole ::
  "role_lookup \<Rightarrow> string \<Rightarrow> (uuid option \<Rightarrow> IntentResult) \<Rightarrow> js_error + IntentResult" where
  "withAgentsByRole getAgentsByRole role rest =
     (case getAgentsByRole of
        None \<Rightarrow> Inl TypeError
      | Some lookup \<Rightarrow> Inr (rest (firstId (lookup role))))"

definition intentResult ::
  "string \<Rightarrow> rat \<Rightarrow> uuid option \<Rightarrow> priority \<Rightarrow> bool \<Rightarrow> jstring option \<Rightarrow> IntentResult" where
  "intentResult i c a p e r =
     \<lparr>intent = i, confidence = c, suggestedAgentId = a, priority = p,
      requiresEscalation = e, autoResponse = r,
      reasoning = ascii ''Detected '' @ ascii i @ ascii '' intent with '' @ ascii (priorityName p)
        @ ascii '' priority based on pattern analysis''\<rparr>"

text \<open>
  \<open>classifyIntent\<close>, with the chain of \<open>if\<close>/\<open>else if\<close> in the source's order. The result
  is \<open>Inl TypeError\<close> where the promise is rejected.
\<close>

definition classifyIntent :: "role_lookup \<Rightarrow> jstring \<Rightarrow> js_error + IntentResult" where
  "classifyIntent getAgentsByRole message =
     (let lowerMessage = toLowerCase message in
      if someIncluded lowerMessage urgentPatterns then
        withAgentsByRole getAgentsByRole ''support''
          (\<lambda>agent. intentResult ''urgent_support'' (95 / 100) agent Urgent True
                      (Some autoResponse_urgent))
      else if someIncluded lowerMessage
                (technicalPatterns_high @ technicalPatterns_medium @ technicalPatterns_low) then
        (if someIncluded lowerMessage technicalPatterns_high then
           withAgentsByRole getAgentsByRole ''support''
             (\<lambda>agent. intentResult ''technical_support'' (9 / 10) agent High False None)
         else if someIncluded lowerMessage technicalPatterns_medium then
           withAgentsByRole getAgentsByRole ''support''
             (\<lambda>agent. intentResult ''technical_support'' (8 / 10) agent Medium False None)
         else
           withAgentsByRole getAgentsByRole ''support''
             (\<lambda>agent. intentResult ''technical_support'' (7 / 10) agent Low False None))
      else if someIncluded lowerMessage documentPatterns then
        withAgentsByRole getAgentsByRole ''researcher''
          (\<lambda>agent. intentResult ''document_question'' (85 / 100) agent Low False None)
      else if someIncluded lowerMessage researchPatterns then
        withAgentsByRole getAgentsByRole ''researcher''
          (\<lambda>agent. intentResult ''research_request'' (8 / 10) agent Medium False None)
      else if someIncluded lowerMessage featurePatterns then
        Inr (intentResult ''feature_request'' (75 / 100) None Low False
               (Some autoResponse_feature))
      else if someIncluded lowerMessage bugPatterns then
        withAgentsByRole getAgentsByRole ''support''
          (\<lambda>agent. intentResult ''bug_report'' (8 / 10) agent Medium False
                      (Some autoResponse_bug))
      else
        Inr (intentResult ''general'' (5 / 10) None Medium False None))"

section \<open>Support ticket classification\<close>

datatype category = Technical | Billing | General | FeatureRequest | BugReport

datatype complexity = Simple | Moderate | Complicated

record SupportTicketClassification =
  category :: category
  priority_t :: priority
  complexity :: complexity
  estimatedResolutionTime :: nat
  requiresHumanEscalation :: bool

text \<open>
  The keyword arrays of \<open>classifySupportTicket\<close>, in the order of the source. The source
  writes them inline; \<open>Complicated\<close> stands for the complexity \<open>'complex'\<close>. The third word of
  \<open>complexWords\<close> is the upper-case \<open>'API'\<close>, compared with the lower-cased message as the
  source does.
\<close>

(* 'oshibka', 'ne rabotaet', 'error', 'broken', 'crash' *)
definition technicalWords :: "jstring list" where
  "technicalWords =
  [[cy_o, cy_sh, cy_i, cy_b, cy_k, cy_a],
   [cy_n, cy_e, 32, cy_r, cy_a, cy_b, cy_o, cy_t, cy_a, cy_e, cy_t],
   ascii ''error'',
   ascii ''broken'',
   ascii ''crash'']"

(* 'baza dannyh', 'database', 'API', 'integraciya', 'integration' *)
definition complexWords :: "jstring list" where
  "complexWords =
  [[cy_b, cy_a, cy_z, cy_a, 32, cy_d, cy_a, cy_n, cy_n, cy_y, cy_h],
   ascii ''database'',
   ascii ''API'',
   [cy_i, cy_n, cy_t, cy_e, cy_g, cy_r, cy_a, cy_c, cy_i, cy_ya],
   ascii ''integration'']"

(* 'zagruzka', 'performance', 'medlenno', 'timeout' *)
definition moderateWords :: "jstring list" where
  "moderateWords =
  [[cy_z, cy_a, cy_g, cy_r, cy_u, cy_z, cy_k, cy_a],
   ascii ''performance'',
   [cy_m, cy_e, cy_d, cy_l, cy_e, cy_n, cy_n, cy_o],
   ascii ''timeout'']"

(* 'bag', 'bug', 'nepravil'no', 'incorrect' *)
definition bugWords :: "jstring list" where
  "bugWords =
  [[cy_b, cy_a, cy_g],
   ascii ''bug'',
   [cy_n, cy_e, cy_p, cy_r, cy_a, cy_v, cy_i, cy_l, cy_soft, cy_n, cy_o],
   ascii ''incorrect'']"

(* 'funkciya', 'feature', 'dobavit'', 'add', 'enhancement' *)
definition featureWords :: "jstring list" where
  "featureWords =
  [[cy_f, cy_u, cy_n, cy_k, cy_c, cy_i, cy_ya],
   ascii ''feature'',
   [cy_d, cy_o, cy_b, cy_a, cy_v, cy_i, cy_t, cy_soft],
   ascii ''add'',
   ascii ''enhancement'']"

(* 'oplata', 'billing', 'payment', 'schet', 'subscription' *)
definition billingWords :: "jstring list" where
  "billingWords =
  [[cy_o, cy_p, cy_l, cy_a, cy_t, cy_a],
   ascii ''billing'',
   ascii ''payment'',
   [cy_s, cy_ch, cy_e, cy_t],
   ascii ''subscription'']"

(* 'critical', 'kriticheskij', 'urgent', 'srochno' *)
definition escalationWords :: "jstring list" where
  "escalationWords =
  [ascii ''critical'',
   [cy_k, cy_r, cy_i, cy_t, cy_i, cy_ch, cy_e, cy_s, cy_k, cy_i, cy_j],
   ascii ''urgent'',
   [cy_s, cy_r, cy_o, cy_ch, cy_n, cy_o]]"

text \<open>
  \<open>classifySupportTicket\<close>: the category chain assigns the five variables, then the
  escalation criteria overwrite priority and escalation flag.
\<close>

definition classifySupportTicket :: "jstring \<Rightarrow> SupportTicketClassification" where
  "classifySupportTicket message =
     (let lowerMessage = toLowerCase message;
          (cat, prio, compl, minutes, escalate) =
            (if someIncluded lowerMessage technicalWords then
               (if someIncluded lowerMessage complexWords then
                  (Technical, High, Complicated, 120, True)
                else if someIncluded lowerMessage moderateWords then
                  (Technical, Medium, Moderate, 60, False)
                else (Technical, Low, Simple, 15, False))
             else if someIncluded lowerMessage bugWords then
               (BugReport, Medium, Moderate, 45, False)
             else if someIncluded lowerMessage featureWords then
               (FeatureRequest, Low, Simple, 5, False)
             else if someIncluded lowerMessage billingWords then
               (Billing, Medium, Simple, 20, False)
             else (General, Medium, Moderate, 30, False))
      in if prio = High \<or> someIncluded lowerMessage escalationWords then
           \<lparr>category = cat, priority_t = Urgent, complexity = compl,
            estimatedResolutionTime = minutes, requiresHumanEscalation = True\<rparr>
         else
           \<lparr>category = cat, priority_t = prio, complexity = compl,
            estimatedResolutionTime = minutes, requiresHumanEscalation = escalate\<rparr>)"

section \<open>The store\<close>

text \<open>
  The tables the engines read and write. A UUID is a natural number; the database draws the
  id of a new row from the counter \<open>next_uuid\<close>. A table whose rows are fetched by primary
  key is a map; a table that is queried in order is the list of its rows, oldest first. The
  store is reliable: a query fails only by finding no row (or, for \<open>single()\<close>, more than
  one); constraint violations, row-level security and network failures are not modelled.
\<close>

datatype status = Idle | Active | Paused | Completed | Cancelled | Errored

record StateMessage =
  agentId :: uuid
  agentName :: "jstring option"
  content :: jstring
  timestamp :: int

record ConversationState =
  currentTurn :: nat
  maxTurns :: int
  agents :: "uuid list"
  topic :: jstring
  status :: status
  messages :: "StateMessage list"

record Conversation =
  chat_id :: uuid
  agent_ids :: "uuid list"
  conversation_state :: ConversationState
  status_c :: "status option"

record Message =
  chat_id_m :: uuid
  sender :: jstring
  content_m :: jstring
  role_m :: string
  agent_id_m :: "uuid option"
  intent_m :: string
  confidence_m :: rat
  meta_conversation_id :: "uuid option"
  meta_type :: "string option"

record Chat =
  chat_type :: string
  document_ids :: "uuid list"

datatype feedback_type = Correction | Improvement | Praise | Suggestion

record FeedbackInput =
  agent_id_f :: uuid
  message_id :: "uuid option"
  feedback_type :: feedback_type
  original_response :: "jstring option"
  suggested_response :: "jstring option"
  user_feedback :: jstring
  confidence_score :: rat

record FeedbackType = FeedbackInput +
  id_f :: uuid

record PromptImprovementLog =
  id_l :: uuid
  agent_id_l :: uuid
  old_prompt :: jstring
  new_prompt :: jstring
  improvement_reason :: jstring
  feedback_ids :: "uuid list"
  performance_before :: jstring

record Store =
  user :: "uuid option"
  agents_tbl :: "Agent list"
  chats_tbl :: "uuid \<rightharpoonup> Chat"
  documents_tbl :: "uuid list"
  messages_tbl :: "Message list"
  agent_conversations :: "uuid \<rightharpoonup> Conversation"
  agent_feedback :: "FeedbackType list"
  prompt_improvement_logs :: "PromptImprovementLog list"
  next_uuid :: nat

section \<open>The multi-agent conversation engine (edge function multi-agent-chat)\<close>

subsection \<open>generateAgentMessage\<close>

text \<open>
  The role templates, each cut at the two places where the topic and the context summary
  are spliced in. The transliteration of each template is given before its three pieces.
\<close>

(* 'Kak issledovatel', ya analiziruyu temu "' *)
definition opening_researcher :: jstring where
  "opening_researcher =
     [CY_K, cy_a, cy_k, 32, cy_i, cy_s, cy_s, cy_l, cy_e, cy_d, cy_o, cy_v, cy_a, cy_t,
      cy_e, cy_l, cy_soft, 44, 32, cy_ya, 32, cy_a, cy_n, cy_a, cy_l, cy_i, cy_z, cy_i,
      cy_r, cy_u, cy_yu, 32, cy_t, cy_e, cy_m, cy_u, 32, 34]"


(* 'Uchityvaya predyduschij kontekst: ' *)
definition withContext_researcher :: jstring where
  "withContext_researcher =
     [CY_U, cy_ch, cy_i, cy_t, cy_y, cy_v, cy_a, cy_ya, 32, cy_p, cy_r, cy_e, cy_d, cy_y,
      cy_d, cy_u, cy_sch, cy_i, cy_j, 32, cy_k, cy_o, cy_n, cy_t, cy_e, cy_k, cy_s, cy_t,
      58, 32]"


(* ' Pozvol'te mne predlozhit' uglublennyj analiz i dopolnitel'nye istochniki informacii.' *)
definition closing_researcher :: jstring where
  "closing_researcher =
     [32, CY_P, cy_o, cy_z, cy_v, cy_o, cy_l, cy_soft, cy_t, cy_e, 32, cy_m, cy_n, cy_e,
      32, cy_p, cy_r, cy_e, cy_d, cy_l, cy_o, cy_zh, cy_i, cy_t, cy_soft, 32, cy_u, cy_g,
      cy_l, cy_u, cy_b, cy_l, cy_e, cy_n, cy_n, cy_y, cy_j, 32, cy_a, cy_n, cy_a, cy_l,
      cy_i, cy_z, 32, cy_i, 32, cy_d, cy_o, cy_p, cy_o, cy_l, cy_n, cy_i, cy_t, cy_e,
      cy_l, cy_soft, cy_n, cy_y, cy_e, 32, cy_i, cy_s, cy_t, cy_o, cy_ch, cy_n, cy_i, cy_k,
      cy_i, 32, cy_i, cy_n, cy_f, cy_o, cy_r, cy_m, cy_a, cy_c, cy_i, cy_i, 46]"


(* 'Kak agent podderzhki, ya gotov pomoch' s temoj "' *)
definition opening_support :: jstring where
  "opening_support =
     [CY_K, cy_a, cy_k, 32, cy_a, cy_g, cy_e, cy_n, cy_t, 32, cy_p, cy_o, cy_d, cy_d,
      cy_e, cy_r, cy_zh, cy_k, cy_i, 44, 32, cy_ya, 32, cy_g, cy_o, cy_t, cy_o, cy_v,
      32, cy_p, cy_o, cy_m, cy_o, cy_ch, cy_soft, 32, cy_s, 32, cy_t, cy_e, cy_m, cy_o,
      cy_j, 32, 34]"


(* 'Osnovyvayas' na predyduschem obsuzhdenii: ' *)
definition withContext_support :: jstring where
  "withContext_support =
     [CY_O, cy_s, cy_n, cy_o, cy_v, cy_y, cy_v, cy_a, cy_ya, cy_s, cy_soft, 32, cy_n, cy_a,
      32, cy_p, cy_r, cy_e, cy_d, cy_y, cy_d, cy_u, cy_sch, cy_e, cy_m, 32, cy_o, cy_b,
      cy_s, cy_u, cy_zh, cy_d, cy_e, cy_n, cy_i, cy_i, 58, 32]"


(* ' Chto imenno vas interesuet ili bespokoit?' *)
definition closing_support :: jstring where
  "closing_support =
     [32, CY_CH, cy_t, cy_o, 32, cy_i, cy_m, cy_e, cy_n, cy_n, cy_o, 32, cy_v, cy_a,
      cy_s, 32, cy_i, cy_n, cy_t, cy_e, cy_r, cy_e, cy_s, cy_u, cy_e, cy_t, 32, cy_i,
      cy_l, cy_i, 32, cy_b, cy_e, cy_s, cy_p, cy_o, cy_k, cy_o, cy_i, cy_t, 63]"


(* 'Kak programmist, ya gotov pomoch' s tehnicheskimi aspektami "' *)
definition opening_coder :: jstring where
  "opening_coder =
     [CY_K, cy_a, cy_k, 32, cy_p, cy_r, cy_o, cy_g, cy_r, cy_a, cy_m, cy_m, cy_i, cy_s,
      cy_t, 44, 32, cy_ya, 32, cy_g, cy_o, cy_t, cy_o, cy_v, 32, cy_p, cy_o, cy_m,
      cy_o, cy_ch, cy_soft, 32, cy_s, 32, cy_t, cy_e, cy_h, cy_n, cy_i, cy_ch, cy_e, cy_s,
      cy_k, cy_i, cy_m, cy_i, 32, cy_a, cy_s, cy_p, cy_e, cy_k, cy_t, cy_a, cy_m, cy_i,
      32, 34]"


(* 'Uchityvaya kontekst: ' *)
definition withContext_coder :: jstring where
  "withContext_coder =
     [CY_U, cy_ch, cy_i, cy_t, cy_y, cy_v, cy_a, cy_ya, 32, cy_k, cy_o, cy_n, cy_t, cy_e,
      cy_k, cy_s, cy_t, 58, 32]"


(* ' Mogu predlozhit' resheniya na urovne koda i arhitektury.' *)
definition closing_coder :: jstring where
  "closing_coder =
     [32, CY_M, cy_o, cy_g, cy_u, 32, cy_p, cy_r, cy_e, cy_d, cy_l, cy_o, cy_zh, cy_i,
      cy_t, cy_soft, 32, cy_r, cy_e, cy_sh, cy_e, cy_n, cy_i, cy_ya, 32, cy_n, cy_a, 32,
      cy_u, cy_r, cy_o, cy_v, cy_n, cy_e, 32, cy_k, cy_o, cy_d, cy_a, 32, cy_i, 32,
      cy_a, cy_r, cy_h, cy_i, cy_t, cy_e, cy_k, cy_t, cy_u, cy_r, cy_y, 46]"


(* 'Kak pisatel', ya pomogu strukturirovat' informaciyu po teme "' *)
definition opening_writer :: jstring where
  "opening_writer =
     [CY_K, cy_a, cy_k, 32, cy_p, cy_i, cy_s, cy_a, cy_t, cy_e, cy_l, cy_soft, 44, 32,
      cy_ya, 32, cy_p, cy_o, cy_m, cy_o, cy_g, cy_u, 32, cy_s, cy_t, cy_r, cy_u, cy_k,
      cy_t, cy_u, cy_r, cy_i, cy_r, cy_o, cy_v, cy_a, cy_t, cy_soft, 32, cy_i, cy_n, cy_f,
      cy_o, cy_r, cy_m, cy_a, cy_c, cy_i, cy_yu, 32, cy_p, cy_o, 32, cy_t, cy_e, cy_m,
      cy_e, 32, 34]"


(* 'Ishodya iz predyduschego obsuzhdeniya: ' *)
definition withContext_writer :: jstring where
  "withContext_writer =
     [CY_I, cy_s, cy_h, cy_o, cy_d, cy_ya, 32, cy_i, cy_z, 32, cy_p, cy_r, cy_e, cy_d,
      cy_y, cy_d, cy_u, cy_sch, cy_e, cy_g, cy_o, 32, cy_o, cy_b, cy_s, cy_u, cy_zh, cy_d,
      cy_e, cy_n, cy_i, cy_ya, 58, 32]"


(* ' Davajte sozdadim chetkij i ponyatnyj kontent.' *)
definition closing_writer :: jstring where
  "closing_writer =
     [32, CY_D, cy_a, cy_v, cy_a, cy_j, cy_t, cy_e, 32, cy_s, cy_o, cy_z, cy_d, cy_a,
      cy_d, cy_i, cy_m, 32, cy_ch, cy_e, cy_t, cy_k, cy_i, cy_j, 32, cy_i, 32, cy_p,
      cy_o, cy_n, cy_ya, cy_t, cy_n, cy_y, cy_j, 32, cy_k, cy_o, cy_n, cy_t, cy_e, cy_n,
      cy_t, 46]"


(* 'Kak analitik, ya proanaliziruyu temu "' *)
definition opening_analyst :: jstring where
  "opening_analyst =
     [CY_K, cy_a, cy_k, 32, cy_a, cy_n, cy_a, cy_l, cy_i, cy_t, cy_i, cy_k, 44, 32,
      cy_ya, 32, cy_p, cy_r, cy_o, cy_a, cy_n, cy_a, cy_l, cy_i, cy_z, cy_i, cy_r, cy_u,
      cy_yu, 32, cy_t, cy_e, cy_m, cy_u, 32, 34]"


(* 'Na osnove konteksta: ' *)
definition withContext_analyst :: jstring where
  "withContext_analyst =
     [CY_N, cy_a, 32, cy_o, cy_s, cy_n, cy_o, cy_v, cy_e, 32, cy_k, cy_o, cy_n, cy_t,
      cy_e, cy_k, cy_s, cy_t, cy_a, 58, 32]"


(* ' Predlozhu strukturirovannyj analiz i vyvody.' *)
definition closing_analyst :: jstring where
  "closing_analyst =
     [32, CY_P, cy_r, cy_e, cy_d, cy_l, cy_o, cy_zh, cy_u, 32, cy_s, cy_t, cy_r, cy_u,
      cy_k, cy_t, cy_u, cy_r, cy_i, cy_r, cy_o, cy_v, cy_a, cy_n, cy_n, cy_y, cy_j, 32,
      cy_a, cy_n, cy_a, cy_l, cy_i, cy_z, 32, cy_i, 32, cy_v, cy_y, cy_v, cy_o, cy_d,
      cy_y, 46]"


(* 'Kak AI assistent, ya gotov pomoch' s temoj "' *)
definition opening_default :: jstring where
  "opening_default =
     [CY_K, cy_a, cy_k, 32, 65, 73, 32, cy_a, cy_s, cy_s, cy_i, cy_s, cy_t, cy_e,
      cy_n, cy_t, 44, 32, cy_ya, 32, cy_g, cy_o, cy_t, cy_o, cy_v, 32, cy_p, cy_o,
      cy_m, cy_o, cy_ch, cy_soft, 32, cy_s, 32, cy_t, cy_e, cy_m, cy_o, cy_j, 32, 34]"


(* 'Uchityvaya predyduschij kontekst: ' *)
definition withContext_default :: jstring where
  "withContext_default =
     [CY_U, cy_ch, cy_i, cy_t, cy_y, cy_v, cy_a, cy_ya, 32, cy_p, cy_r, cy_e, cy_d, cy_y,
      cy_d, cy_u, cy_sch, cy_i, cy_j, 32, cy_k, cy_o, cy_n, cy_t, cy_e, cy_k, cy_s, cy_t,
      58, 32]"


(* ' Chto imenno vas interesuet?' *)
definition closing_default :: jstring where
  "closing_default =
     [32, CY_CH, cy_t, cy_o, 32, cy_i, cy_m, cy_e, cy_n, cy_n, cy_o, 32, cy_v, cy_a,
      cy_s, 32, cy_i, cy_n, cy_t, cy_e, cy_r, cy_e, cy_s, cy_u, cy_e, cy_t, 63]"


(* 'Kontekst: ' *)
definition contextLabel :: jstring where
  "contextLabel =
     [CY_K, cy_o, cy_n, cy_t, cy_e, cy_k, cy_s, cy_t, 58, 32]"


(* ' Eto moj ' *)
definition turnPrefix :: jstring where
  "turnPrefix =
     [32, CY_EH, cy_t, cy_o, 32, cy_m, cy_o, cy_j, 32]"


(* '-j hod v nashem obsuzhdenii.' *)
definition turnSuffix :: jstring where
  "turnSuffix =
     [45, cy_j, 32, cy_h, cy_o, cy_d, 32, cy_v, 32, cy_n, cy_a, cy_sh, cy_e, cy_m,
      32, cy_o, cy_b, cy_s, cy_u, cy_zh, cy_d, cy_e, cy_n, cy_i, cy_i, 46]"


(* 'Razgovor agentov zavershen. Obsuzhdeno ' *)
definition summaryPrefix :: jstring where
  "summaryPrefix =
     [CY_R, cy_a, cy_z, cy_g, cy_o, cy_v, cy_o, cy_r, 32, cy_a, cy_g, cy_e, cy_n, cy_t,
      cy_o, cy_v, 32, cy_z, cy_a, cy_v, cy_e, cy_r, cy_sh, cy_e, cy_n, 46, 32, CY_O,
      cy_b, cy_s, cy_u, cy_zh, cy_d, cy_e, cy_n, cy_o, 32]"


(* ' soobschenij po teme "' *)
definition summaryMiddle :: jstring where
  "summaryMiddle =
     [32, cy_s, cy_o, cy_o, cy_b, cy_sch, cy_e, cy_n, cy_i, cy_j, 32, cy_p, cy_o, 32,
      cy_t, cy_e, cy_m, cy_e, 32, 34]"
text \<open>\<open>xs.join(sep)\<close>.\<close>

fun join_js :: "jstring \<Rightarrow> jstring list \<Rightarrow> jstring" where
  "join_js sep [] = []"
| "join_js sep [x] = x"
| "join_js sep (x # y # ys) = x @ sep @ join_js sep (y # ys)"

text \<open>\<open>xs.slice(-3)\<close>: the last three elements, or all of them when there are fewer.\<close>

definition lastThree :: "'a list \<Rightarrow> 'a list" where
  "lastThree xs = drop (length xs - 3) xs"

definition roleTemplate :: "string \<Rightarrow> jstring \<times> jstring \<times> jstring" where
  "roleTemplate r =
     (if r = ''researcher'' then (opening_researcher, withContext_researcher, closing_researcher)
      else if r = ''support'' then (opening_support, withContext_support, closing_support)
      else if r = ''coder'' then (opening_coder, withContext_coder, closing_coder)
      else if r = ''writer'' then (opening_writer, withContext_writer, closing_writer)
      else if r = ''analyst'' then (opening_analyst, withContext_analyst, closing_analyst)
      else (opening_default, withContext_default, closing_default))"

text \<open>
  \<open>generateAgentMessage(agent, topic, context, turn)\<close>; \<open>context\<close> is the list of the
  contents of the rows handed in.
\<close>

definition generateAgentMessage :: "Agent \<Rightarrow> jstring \<Rightarrow> jstring list \<Rightarrow> nat \<Rightarrow> jstring" where
  "generateAgentMessage agent topic' context turn =
     (let contextSummary =
            (if length context > 0 then contextLabel @ join_js (ascii '' | '') (lastThree context)
             else []);
          (opening, withContext, closing) = roleTemplate (role_a agent);
          response = opening @ topic' @ [34, 46, 32]
            @ (if contextSummary \<noteq> [] then withContext @ contextSummary else [])
            @ closing
      in if turn > 0 then response @ turnPrefix @ numberToString (int turn + 1) @ turnSuffix
         else response)"

subsection \<open>Requests, responses and errors\<close>

text \<open>
  The body of a \<open>start\<close> request as parsed from JSON. \<open>chatId_r = None\<close> stands for a
  missing or falsy chat id, \<open>agentIds_r = None\<close> for a missing value or one that is not an
  array, \<open>maxTurns_r = None\<close> for a missing value (the default 5 applies).
\<close>

record StartRequest =
  chatId_r :: "uuid option"
  agentIds_r :: "uuid list option"
  topic_r :: jstring
  maxTurns_r :: "int option"

record ContinueRequest =
  chatId_q :: uuid
  conversationId_q :: uuid

text \<open>
  The error responses: \<open>InvalidInput\<close> is the 400 "Invalid input: chatId and at least 2
  agentIds required", \<open>FailedToFetchAgents\<close> the 500 "Failed to fetch agents",
  \<open>ConversationNotFound\<close> and \<open>AgentNotFound\<close> the two 404s, \<open>NotActive\<close> the 400
  "Conversation completed or max turns reached", \<open>InternalError\<close> the 500 of the outer
  \<open>catch\<close>.
\<close>

datatype error =
  InvalidInput | FailedToFetchAgents | ConversationNotFound | AgentNotFound | NotActive
  | InternalError

record StartResponse =
  conversation_id :: uuid
  first_message :: jstring
  next_agent_s :: "uuid option"
  turn_s :: nat

record ContinueResponse =
  agent_message :: jstring
  next_agent :: "uuid option"
  turn :: nat
  should_continue :: bool

record EndResponse =
  summary :: jstring
  total_turns :: nat
  total_messages :: nat

text \<open>The row both \<open>start\<close> and \<open>continue\<close> add to the chat transcript.\<close>

definition agentMessageRow :: "uuid \<Rightarrow> Agent \<Rightarrow> jstring \<Rightarrow> uuid \<Rightarrow> Message" where
  "agentMessageRow chatId agent text' conversationId =
     \<lparr>chat_id_m = chatId, sender = name_a agent, content_m = text', role_m = ''assistant'',
      agent_id_m = Some (id_a agent), intent_m = ''agent_conversation'', confidence_m = 95 / 100,
      meta_conversation_id = Some conversationId, meta_type = None\<rparr>"

text \<open>\<open>update({chat_type: ...}).eq('id', chatId)\<close>: no row, no change.\<close>

definition setChatType :: "uuid \<Rightarrow> string \<Rightarrow> Store \<Rightarrow> Store" where
  "setChatType chatId t st =
     (case chats_tbl st chatId of
        None \<Rightarrow> st
      | Some c \<Rightarrow> st\<lparr>chats_tbl := (chats_tbl st)(chatId \<mapsto> c\<lparr>chat_type := t\<rparr>)\<rparr>)"

subsection \<open>startMultiAgentConversation\<close>

text \<open>
  \<open>.from('agents').select(...).in('id', agentIds)\<close> returns the matching rows in the
  table's order, not in the order of \<open>agentIds\<close>.
\<close>

definition startMultiAgentConversation ::
  "Store \<Rightarrow> StartRequest \<Rightarrow> (error + StartResponse) \<times> Store" where
  "startMultiAgentConversation st req =
     (case (chatId_r req, agentIds_r req) of
        (Some chatId, Some agentIds) \<Rightarrow>
          if length agentIds < 2 then (Inl InvalidInput, st)
          else
            let fetched = filter (\<lambda>a. id_a a \<in> set agentIds) (agents_tbl st) in
            if length fetched \<noteq> length agentIds then (Inl FailedToFetchAgents, st)
            else
              let initialState =
                    \<lparr>currentTurn = 0,
                     maxTurns = (case maxTurns_r req of None \<Rightarrow> 5 | Some m \<Rightarrow> m),
                     agents = agentIds, topic = topic_r req, status = Active, messages = []\<rparr>;
                  conversationId = next_uuid st;
                  st1 = st\<lparr>agent_conversations := (agent_conversations st)(conversationId \<mapsto>
                            \<lparr>chat_id = chatId, agent_ids = agentIds,
                             conversation_state = initialState, status_c = None\<rparr>),
                          next_uuid := conversationId + 1\<rparr>;
                  st2 = setChatType chatId ''multi_agent'' st1
              in (case fetched of
                    [] \<Rightarrow> (Inl InternalError, st2)
                  | firstAgent # others \<Rightarrow>
                      let firstMessage = generateAgentMessage firstAgent (topic_r req) [] 0;
                          st3 = st2\<lparr>messages_tbl := messages_tbl st2 @
                                  [agentMessageRow chatId firstAgent firstMessage conversationId]\<rparr>
                      in (Inr \<lparr>conversation_id = conversationId, first_message = firstMessage,
                               next_agent_s = firstId others, turn_s = 1\<rparr>, st3))
      | _ \<Rightarrow> (Inl InvalidInput, st))"

subsection \<open>continueConversation\<close>

text \<open>
  \<open>state.agents[state.currentTurn % state.agents.length]\<close>: with no agents the index is
  \<open>NaN\<close> and the read gives \<open>undefined\<close>.
\<close>

definition agentAt :: "uuid list \<Rightarrow> nat \<Rightarrow> uuid option" where
  "agentAt ids t = (if ids = [] then None else Some (ids ! (t mod length ids)))"

text \<open>The five newest rows of a chat, newest first.\<close>

definition recentMessages :: "Store \<Rightarrow> uuid \<Rightarrow> Message list" where
  "recentMessages st chatId = take 5 (rev (filter (\<lambda>m. chat_id_m m = chatId) (messages_tbl st)))"

definition continueConversation ::
  "Store \<Rightarrow> int \<Rightarrow> ContinueRequest \<Rightarrow> (error + ContinueResponse) \<times> Store" where
  "continueConversation st now req =
     (case agent_conversations st (conversationId_q req) of
        None \<Rightarrow> (Inl ConversationNotFound, st)
      | Some conversation \<Rightarrow>
          let state = conversation_state conversation in
          if int (currentTurn state) \<ge> maxTurns state \<or> status state \<noteq> Active
          then (Inl NotActive, st)
          else
            (case agentAt (agents state) (currentTurn state) of
               None \<Rightarrow> (Inl AgentNotFound, st)
             | Some nextAgentId \<Rightarrow>
                 (case filter (\<lambda>a. id_a a = nextAgentId) (agents_tbl st) of
                    [agent] \<Rightarrow>
                      let agentMessage = generateAgentMessage agent (topic state)
                            (map content_m (recentMessages st (chatId_q req))) (currentTurn state);
                          st1 = st\<lparr>messages_tbl := messages_tbl st @
                                  [agentMessageRow (chatId_q req) agent agentMessage
                                     (conversationId_q req)]\<rparr>;
                          updatedState = state
                            \<lparr>currentTurn := currentTurn state + 1,
                             messages := messages state @
                               [\<lparr>agentId = id_a agent, agentName = Some (name_a agent),
                                 content = agentMessage, timestamp = now\<rparr>]\<rparr>;
                          st2 = st1\<lparr>agent_conversations :=
                                  (agent_conversations st1)(conversationId_q req \<mapsto>
                                     conversation\<lparr>conversation_state := updatedState\<rparr>)\<rparr>;
                          shouldContinue = (int (currentTurn updatedState) < maxTurns updatedState)
                      in (Inr \<lparr>agent_message = agentMessage,
                               next_agent = (if shouldContinue
                                             then agentAt (agents state) (currentTurn updatedState)
                                             else None),
                               turn = currentTurn updatedState,
                               should_continue = shouldContinue\<rparr>, st2)
                  | _ \<Rightarrow> (Inl AgentNotFound, st))))"

subsection \<open>endConversation\<close>

definition summaryRow :: "uuid \<Rightarrow> jstring \<Rightarrow> uuid \<Rightarrow> Message" where
  "summaryRow chatId text' conversationId =
     \<lparr>chat_id_m = chatId, sender = ascii ''System'', content_m = text', role_m = ''assistant'',
      agent_id_m = None, intent_m = ''conversation_summary'', confidence_m = 1,
      meta_conversation_id = Some conversationId, meta_type = Some ''summary''\<rparr>"

definition endConversation :: "Store \<Rightarrow> uuid \<Rightarrow> (error + EndResponse) \<times> Store" where
  "endConversation st conversationId =
     (case agent_conversations st conversationId of
        None \<Rightarrow> (Inl ConversationNotFound, st)
      | Some conversation \<Rightarrow>
          let state = conversation_state conversation;
              finalState = state\<lparr>status := Completed\<rparr>;
              st1 = st\<lparr>agent_conversations := (agent_conversations st)(conversationId \<mapsto>
                        conversation\<lparr>conversation_state := finalState\<rparr>)\<rparr>;
              summary' = summaryPrefix @ numberToString (int (length (messages state)))
                           @ summaryMiddle @ topic state @ [34, 46];
              st2 = st1\<lparr>messages_tbl := messages_tbl st1 @
                      [summaryRow (chat_id conversation) summary' conversationId]\<rparr>
          in (Inr \<lparr>summary = summary', total_turns = currentTurn state,
                   total_messages = length (messages state)\<rparr>, st2))"

subsection \<open>The client hook useMultiAgentChat\<close>

text \<open>
  The hook writes the same table from the browser. Its \<open>continueConversation\<close> takes the
  speaker and the text from the caller, and sets the status from the turn counter alone;
  its \<open>endConversation\<close> sets the row's \<open>status\<close> column and leaves the stored state as it
  is. An update that matches no row changes nothing.
\<close>

definition continueConversation_hook ::
  "Store \<Rightarrow> int \<Rightarrow> uuid \<Rightarrow> uuid \<Rightarrow> jstring \<Rightarrow> (error + unit) \<times> Store" where
  "continueConversation_hook st now conversationId agentId' message =
     (case agent_conversations st conversationId of
        None \<Rightarrow> (Inl ConversationNotFound, st)
      | Some conversation \<Rightarrow>
          let currentState = conversation_state conversation;
              newMessage = \<lparr>agentId = agentId', agentName = None, content = message,
                            timestamp = now\<rparr>;
              updatedState = currentState
                \<lparr>currentTurn := currentTurn currentState + 1,
                 messages := messages currentState @ [newMessage],
                 status := (if int (currentTurn currentState) + 1 \<ge> maxTurns currentState
                            then Completed else Active)\<rparr>
          in (Inr (), st\<lparr>agent_conversations := (agent_conversations st)(conversationId \<mapsto>
                conversation\<lparr>conversation_state := updatedState,
                              status_c := Some (status updatedState)\<rparr>)\<rparr>))"

definition endConversation_hook :: "Store \<Rightarrow> uuid \<Rightarrow> Store" where
  "endConversation_hook st conversationId =
     (case agent_conversations st conversationId of
        None \<Rightarrow> st
      | Some conversation \<Rightarrow>
          st\<lparr>agent_conversations := (agent_conversations st)(conversationId \<mapsto>
                conversation\<lparr>status_c := Some Completed\<rparr>)\<rparr>)"

section \<open>Context switching (useContextSwitching)\<close>

datatype chat_context = ContextRag | ContextHistory | ContextAgent | ContextGeneral

record ScoredMessage =
  msg :: Message
  relevanceScore :: rat

record ContextSwitchResult =
  shouldSwitch :: bool
  newContext :: chat_context
  confidence_s :: rat
  reasoning_s :: jstring
  suggestedDocuments :: "uuid list"
  relevantHistory_s :: "ScoredMessage list"
  suggestedAgent :: "uuid option"

text \<open>
  \<open>lastSwitchTime\<close> is the ISO timestamp \<open>executeContextSwitch\<close> writes; it is kept as
  the number of milliseconds \<open>new Date(lastSwitchTime).getTime()\<close> reads back.
\<close>

record ConversationContext =
  chatId :: uuid
  currentContext :: chat_context
  activeDocuments :: "uuid list"
  relevantHistory :: "ScoredMessage list"
  contextScore :: rat
  lastSwitchTime :: int

record Effectiveness =
  score :: rat
  suggestedContext :: chat_context
  confidence_e :: rat
  reason :: jstring

text \<open>The keyword families of \<open>analyzeContextSwitch\<close>, then those of the effectiveness check.\<close>

(* 'v dokumente', 'po dokumentu', 'dokumentaciya', 'pdf', 'fajl', 'in document',
   'documentation', 'file', 'according to', 'najti v', 'poisk po', 'chto govoritsya v', 'na
   osnove dokumenta' *)
definition documentKeywords :: "jstring list" where
  "documentKeywords =
  [[cy_v, 32, cy_d, cy_o, cy_k, cy_u, cy_m, cy_e, cy_n, cy_t, cy_e],
   [cy_p, cy_o, 32, cy_d, cy_o, cy_k, cy_u, cy_m, cy_e, cy_n, cy_t, cy_u],
   [cy_d, cy_o, cy_k, cy_u, cy_m, cy_e, cy_n, cy_t, cy_a, cy_c, cy_i, cy_ya],
   ascii ''pdf'',
   [cy_f, cy_a, cy_j, cy_l],
   ascii ''in document'',
   ascii ''documentation'',
   ascii ''file'',
   ascii ''according to'',
   [cy_n, cy_a, cy_j, cy_t, cy_i, 32, cy_v],
   [cy_p, cy_o, cy_i, cy_s, cy_k, 32, cy_p, cy_o],
   [cy_ch, cy_t, cy_o, 32, cy_g, cy_o, cy_v, cy_o, cy_r, cy_i, cy_t, cy_s, cy_ya, 32,
      cy_v],
   [cy_n, cy_a, 32, cy_o, cy_s, cy_n, cy_o, cy_v, cy_e, 32, cy_d, cy_o, cy_k, cy_u,
      cy_m, cy_e, cy_n, cy_t, cy_a]]"

(* 'ran'she govorili', 'ranee obsuzhdali', 'v proshloj besede', 'pomnite', 'previously
   discussed', 'earlier conversation', 'we talked about', 'you mentioned', 'kak vy skazali',
   'prodolzhim temu' *)
definition historyKeywords :: "jstring list" where
  "historyKeywords =
  [[cy_r, cy_a, cy_n, cy_soft, cy_sh, cy_e, 32, cy_g, cy_o, cy_v, cy_o, cy_r, cy_i, cy_l,
      cy_i],
   [cy_r, cy_a, cy_n, cy_e, cy_e, 32, cy_o, cy_b, cy_s, cy_u, cy_zh, cy_d, cy_a, cy_l,
      cy_i],
   [cy_v, 32, cy_p, cy_r, cy_o, cy_sh, cy_l, cy_o, cy_j, 32, cy_b, cy_e, cy_s, cy_e,
      cy_d, cy_e],
   [cy_p, cy_o, cy_m, cy_n, cy_i, cy_t, cy_e],
   ascii ''previously discussed'',
   ascii ''earlier conversation'',
   ascii ''we talked about'',
   ascii ''you mentioned'',
   [cy_k, cy_a, cy_k, 32, cy_v, cy_y, 32, cy_s, cy_k, cy_a, cy_z, cy_a, cy_l, cy_i],
   [cy_p, cy_r, cy_o, cy_d, cy_o, cy_l, cy_zh, cy_i, cy_m, 32, cy_t, cy_e, cy_m, cy_u]]"

(* 'specialist po', 'ekspert v', 'kto mozhet pomoch' s', 'specialist in', 'expert in', 'who
   can help with', 'nuzhen sovet po', 'konsul'taciya po' *)
definition agentTaskKeywords :: "jstring list" where
  "agentTaskKeywords =
  [[cy_s, cy_p, cy_e, cy_c, cy_i, cy_a, cy_l, cy_i, cy_s, cy_t, 32, cy_p, cy_o],
   [cy_eh, cy_k, cy_s, cy_p, cy_e, cy_r, cy_t, 32, cy_v],
   [cy_k, cy_t, cy_o, 32, cy_m, cy_o, cy_zh, cy_e, cy_t, 32, cy_p, cy_o, cy_m, cy_o,
      cy_ch, cy_soft, 32, cy_s],
   ascii ''specialist in'',
   ascii ''expert in'',
   ascii ''who can help with'',
   [cy_n, cy_u, cy_zh, cy_e, cy_n, 32, cy_s, cy_o, cy_v, cy_e, cy_t, 32, cy_p, cy_o],
   [cy_k, cy_o, cy_n, cy_s, cy_u, cy_l, cy_soft, cy_t, cy_a, cy_c, cy_i, cy_ya, 32, cy_p,
      cy_o]]"

(* 'kod', 'programmirovanie', 'oshibka', 'bag', 'API', 'code', 'programming', 'error',
   'bug', 'development', 'funkciya', 'algoritm', 'baza dannyh' *)
definition technicalKeywords :: "jstring list" where
  "technicalKeywords =
  [[cy_k, cy_o, cy_d],
   [cy_p, cy_r, cy_o, cy_g, cy_r, cy_a, cy_m, cy_m, cy_i, cy_r, cy_o, cy_v, cy_a, cy_n,
      cy_i, cy_e],
   [cy_o, cy_sh, cy_i, cy_b, cy_k, cy_a],
   [cy_b, cy_a, cy_g],
   ascii ''API'',
   ascii ''code'',
   ascii ''programming'',
   ascii ''error'',
   ascii ''bug'',
   ascii ''development'',
   [cy_f, cy_u, cy_n, cy_k, cy_c, cy_i, cy_ya],
   [cy_a, cy_l, cy_g, cy_o, cy_r, cy_i, cy_t, cy_m],
   [cy_b, cy_a, cy_z, cy_a, 32, cy_d, cy_a, cy_n, cy_n, cy_y, cy_h]]"

(* 'the', 'a', 'an', 'and', 'or', 'but', 'in', 'on', 'at', 'to', 'for', 'of', 'with', 'by',
   'is', 'are', 'was', 'were', 'i', 'ili', 'no', 'v', 'na', 's', 'po', 'dlya', 'ot', 'do',
   'eto', 'chto', 'kak', 'gde', 'kogda' *)
definition stopWords :: "jstring list" where
  "stopWords =
  [ascii ''the'',
   ascii ''a'',
   ascii ''an'',
   ascii ''and'',
   ascii ''or'',
   ascii ''but'',
   ascii ''in'',
   ascii ''on'',
   ascii ''at'',
   ascii ''to'',
   ascii ''for'',
   ascii ''of'',
   ascii ''with'',
   ascii ''by'',
   ascii ''is'',
   ascii ''are'',
   ascii ''was'',
   ascii ''were'',
   [cy_i],
   [cy_i, cy_l, cy_i],
   [cy_n, cy_o],
   [cy_v],
   [cy_n, cy_a],
   [cy_s],
   [cy_p, cy_o],
   [cy_d, cy_l, cy_ya],
   [cy_o, cy_t],
   [cy_d, cy_o],
   [cy_eh, cy_t, cy_o],
   [cy_ch, cy_t, cy_o],
   [cy_k, cy_a, cy_k],
   [cy_g, cy_d, cy_e],
   [cy_k, cy_o, cy_g, cy_d, cy_a]]"

(* 'dokument', 'fajl', 'pdf', 'document', 'file' *)
definition docKeywords :: "jstring list" where
  "docKeywords =
  [[cy_d, cy_o, cy_k, cy_u, cy_m, cy_e, cy_n, cy_t],
   [cy_f, cy_a, cy_j, cy_l],
   ascii ''pdf'',
   ascii ''document'',
   ascii ''file'']"

(* 'ran'she', 'ranee', 'pomnite', 'previously', 'earlier' *)
definition historyKeywords_eff :: "jstring list" where
  "historyKeywords_eff =
  [[cy_r, cy_a, cy_n, cy_soft, cy_sh, cy_e],
   [cy_r, cy_a, cy_n, cy_e, cy_e],
   [cy_p, cy_o, cy_m, cy_n, cy_i, cy_t, cy_e],
   ascii ''previously'',
   ascii ''earlier'']"

subsection \<open>Document and history lookups\<close>

definition findRelevantDocuments :: "Store \<Rightarrow> jstring \<Rightarrow> uuid \<Rightarrow> uuid list" where
  "findRelevantDocuments st message chatId' =
     (case chats_tbl st chatId' of
        None \<Rightarrow> take 5 (documents_tbl st)
      | Some chat \<Rightarrow>
          if document_ids chat = [] then take 5 (documents_tbl st) else document_ids chat)"

text \<open>The code units the regular expression class \<open>\s\<close> matches.\<close>

definition isSpace :: "nat \<Rightarrow> bool" where
  "isSpace c \<longleftrightarrow>
     (9 \<le> c \<and> c \<le> 13) \<or> c = 32 \<or> c = 160 \<or> c = 5760 \<or> (8192 \<le> c \<and> c \<le> 8202)
     \<or> c = 8232 \<or> c = 8233 \<or> c = 8239 \<or> c = 8287 \<or> c = 12288 \<or> c = 65279"

text \<open>
  \<open>s.split(/\s+/)\<close>: the pieces between maximal runs of white space; a string that starts
  or ends with white space gives an empty first or last piece. \<open>cur\<close> is the piece being
  read.
\<close>

function splitWhitespace :: "jstring \<Rightarrow> jstring \<Rightarrow> jstring list" where
  "splitWhitespace cur [] = [cur]"
| "splitWhitespace cur (c # cs) =
     (if isSpace c then cur # splitWhitespace [] (dropWhile isSpace cs)
      else splitWhitespace (cur @ [c]) cs)"
  by pat_completeness auto
termination
  by (relation "measure (\<lambda>(cur, s). length s)") (auto simp: le_imp_less_Suc length_dropWhile_le)

definition extractKeyTerms :: "jstring \<Rightarrow> jstring list" where
  "extractKeyTerms message =
     take 10 (filter (\<lambda>word. length word > 2 \<and> word \<notin> set stopWords)
                (splitWhitespace [] (toLowerCase message)))"

text \<open>
  \<open>matches.length / keyTerms.length\<close>. With no key terms the source computes \<open>0 / 0 = NaN\<close>,
  which fails the test \<open>> 0.3\<close>; here the quotient is 0, which fails it too.
\<close>

definition calculateMessageRelevance :: "jstring \<Rightarrow> jstring list \<Rightarrow> rat" where
  "calculateMessageRelevance messageContent keyTerms =
     of_nat (length (filter (\<lambda>term'. includes_js (toLowerCase messageContent) term') keyTerms))
       / of_nat (length keyTerms)"

text \<open>
  The 50 newest rows of the chat are scored; \<open>sort\<close> with the comparator
  \<open>b.relevanceScore - a.relevanceScore\<close> is a stable descending sort.
\<close>

definition getRelevantHistory :: "Store \<Rightarrow> jstring \<Rightarrow> uuid \<Rightarrow> ScoredMessage list" where
  "getRelevantHistory st message chatId' =
     (let keyTerms = extractKeyTerms message;
          relevantMessages = take 50 (rev (filter (\<lambda>m. chat_id_m m = chatId') (messages_tbl st)));
          scoredMessages = map (\<lambda>m. \<lparr>msg = m,
              relevanceScore = calculateMessageRelevance (content_m m) keyTerms\<rparr>) relevantMessages
      in take 5 (sort_key (\<lambda>m. - relevanceScore m)
                   (filter (\<lambda>m. relevanceScore m > 3 / 10) scoredMessages)))"

subsection \<open>analyzeCurrentContextEffectiveness\<close>

text \<open>
  \<open>now\<close> is \<open>Date.now()\<close>. The scores are the source's decimal constants, kept as exact
  rationals: the only sum, 0.7 + 0.2, is far from the threshold 0.6 in either arithmetic.
\<close>

definition analyzeCurrentContextEffectiveness ::
  "int \<Rightarrow> ConversationContext \<Rightarrow> jstring \<Rightarrow> Effectiveness" where
  "analyzeCurrentContextEffectiveness now context' newMessage =
     (let timeSinceSwitch = now - lastSwitchTime context';
          minutesSinceSwitch = (of_int timeSinceSwitch :: rat) / (1000 * 60);
          score0 = (if minutesSinceSwitch < 5 then 7 / 10 + 2 / 10 else 7 / 10);
          lowerMessage = toLowerCase newMessage
      in if currentContext context' = ContextRag then
           (if \<not> someIncluded lowerMessage docKeywords \<and> activeDocuments context' = [] then
              \<lparr>score = 4 / 10, suggestedContext = ContextGeneral, confidence_e = 7 / 10,
               reason = ascii ''Message no longer seems document-related and no active documents''\<rparr>
            else
              \<lparr>score = score0, suggestedContext = currentContext context', confidence_e = 5 / 10,
               reason = ascii ''Current context seems appropriate''\<rparr>)
         else if currentContext context' = ContextHistory then
           (if \<not> someIncluded lowerMessage historyKeywords_eff then
              \<lparr>score = 5 / 10, suggestedContext = ContextGeneral, confidence_e = 6 / 10,
               reason = ascii ''Message no longer references conversation history''\<rparr>
            else
              \<lparr>score = score0, suggestedContext = currentContext context', confidence_e = 5 / 10,
               reason = ascii ''Current context seems appropriate''\<rparr>)
         else
           \<lparr>score = score0, suggestedContext = currentContext context', confidence_e = 5 / 10,
            reason = ascii ''Current context seems appropriate''\<rparr>)"

subsection \<open>analyzeContextSwitch\<close>

text \<open>
  The first stage tests the keyword families in the source's order and the first match
  wins; the second stage runs only when a current context was passed and the first stage
  did not switch. A \<open>TypeError\<close> of \<open>classifyIntent\<close> is not caught here either
  (\<open>try\<close>/\<open>finally\<close>): it rejects the promise of \<open>analyzeContextSwitch\<close>.
\<close>

definition keywordStage ::
  "role_lookup \<Rightarrow> Store \<Rightarrow> jstring \<Rightarrow> uuid \<Rightarrow> js_error + ContextSwitchResult" where
  "keywordStage getAgentsByRole st message chatId' =
     (let lowerMessage = toLowerCase message;
          stay = \<lparr>shouldSwitch = False, newContext = ContextGeneral, confidence_s = 5 / 10,
                  reasoning_s = [], suggestedDocuments = [], relevantHistory_s = [],
                  suggestedAgent = None\<rparr>
      in if someIncluded lowerMessage documentKeywords then
           Inr (stay\<lparr>shouldSwitch := True, newContext := ContextRag, confidence_s := 85 / 100,
                reasoning_s := ascii
                  ''User is referencing documents or asking for document-based information'',
                suggestedDocuments := findRelevantDocuments st message chatId'\<rparr>)
         else if someIncluded lowerMessage historyKeywords then
           Inr (stay\<lparr>shouldSwitch := True, newContext := ContextHistory, confidence_s := 8 / 10,
                reasoning_s := ascii
                  ''User is referencing previous conversation or asking for historical context'',
                relevantHistory_s := getRelevantHistory st message chatId'\<rparr>)
         else if someIncluded lowerMessage agentTaskKeywords
                 \<or> someIncluded lowerMessage technicalKeywords then
           (case classifyIntent getAgentsByRole message of
              Inl e \<Rightarrow> Inl e
            | Inr intentResult' \<Rightarrow>
                (case suggestedAgentId intentResult' of
                   Some agentId' \<Rightarrow>
                     Inr (stay\<lparr>shouldSwitch := True, newContext := ContextAgent,
                          confidence_s := confidence intentResult',
                          reasoning_s := ascii ''User task requires specialized agent: ''
                            @ ascii (intent intentResult'),
                          suggestedAgent := Some agentId'\<rparr>)
                 | None \<Rightarrow> Inr stay))
         else Inr stay)"

definition analyzeContextSwitch ::
  "role_lookup \<Rightarrow> Store \<Rightarrow> int \<Rightarrow> jstring \<Rightarrow> uuid \<Rightarrow> ConversationContext option
     \<Rightarrow> js_error + ContextSwitchResult" where
  "analyzeContextSwitch getAgentsByRole st now message chatId' currentChatContext =
     (case keywordStage getAgentsByRole st message chatId' of
        Inl e \<Rightarrow> Inl e
      | Inr first \<Rightarrow>
          Inr (case currentChatContext of
                 None \<Rightarrow> first
               | Some context' \<Rightarrow>
                   if shouldSwitch first then first
                   else
                     let contextEffectiveness =
                           analyzeCurrentContextEffectiveness now context' message in
                     if score contextEffectiveness < 6 / 10 then
                       first\<lparr>shouldSwitch := True,
                             newContext := suggestedContext contextEffectiveness,
                             confidence_s := confidence_e contextEffectiveness,
                             reasoning_s := reason contextEffectiveness\<rparr>
                     else first))"

section \<open>Feedback-driven prompt improvement (useSelfImprovingAgents)\<close>

datatype issue = Accuracy | Clarity | Completeness | Relevance | Tone

text \<open>The keyword patterns of \<open>identifyCommonIssues\<close>, one list per issue.\<close>

(* 'netochno', 'nepravil'no', 'oshibka', 'incorrect', 'wrong' *)
definition patterns_accuracy :: "jstring list" where
  "patterns_accuracy =
  [[cy_n, cy_e, cy_t, cy_o, cy_ch, cy_n, cy_o],
   [cy_n, cy_e, cy_p, cy_r, cy_a, cy_v, cy_i, cy_l, cy_soft, cy_n, cy_o],
   [cy_o, cy_sh, cy_i, cy_b, cy_k, cy_a],
   ascii ''incorrect'',
   ascii ''wrong'']"

(* 'neponyatno', 'slozhno', 'unclear', 'confusing' *)
definition patterns_clarity :: "jstring list" where
  "patterns_clarity =
  [[cy_n, cy_e, cy_p, cy_o, cy_n, cy_ya, cy_t, cy_n, cy_o],
   [cy_s, cy_l, cy_o, cy_zh, cy_n, cy_o],
   ascii ''unclear'',
   ascii ''confusing'']"

(* 'nepolno', 'ne hvataet', 'incomplete', 'missing' *)
definition patterns_completeness :: "jstring list" where
  "patterns_completeness =
  [[cy_n, cy_e, cy_p, cy_o, cy_l, cy_n, cy_o],
   [cy_n, cy_e, 32, cy_h, cy_v, cy_a, cy_t, cy_a, cy_e, cy_t],
   ascii ''incomplete'',
   ascii ''missing'']"

(* 'ne po teme', 'irrelevant', 'off-topic' *)
definition patterns_relevance :: "jstring list" where
  "patterns_relevance =
  [[cy_n, cy_e, 32, cy_p, cy_o, 32, cy_t, cy_e, cy_m, cy_e],
   ascii ''irrelevant'',
   ascii ''off-topic'']"

(* 'grubo', 'nevezhlivo', 'rude', 'impolite' *)
definition patterns_tone :: "jstring list" where
  "patterns_tone =
  [[cy_g, cy_r, cy_u, cy_b, cy_o],
   [cy_n, cy_e, cy_v, cy_e, cy_zh, cy_l, cy_i, cy_v, cy_o],
   ascii ''rude'',
   ascii ''impolite'']"

(* '\n\n**Tochnost' i Proverka Faktov:**\n- Vsegda proveryaj fakty pered otvetom\n- Pri
   neuverennosti, ukazyvaj na ogranicheniya znanij\n- Ssylajsya na istochniki kogda
   vozmozhno' *)
definition section_accuracy :: jstring where
  "section_accuracy =
     [10, 10, 42, 42, CY_T, cy_o, cy_ch, cy_n, cy_o, cy_s, cy_t, cy_soft, 32, cy_i,
      32, CY_P, cy_r, cy_o, cy_v, cy_e, cy_r, cy_k, cy_a, 32, CY_F, cy_a, cy_k, cy_t,
      cy_o, cy_v, 58, 42, 42, 10, 45, 32, CY_V, cy_s, cy_e, cy_g, cy_d, cy_a,
      32, cy_p, cy_r, cy_o, cy_v, cy_e, cy_r, cy_ya, cy_j, 32, cy_f, cy_a, cy_k, cy_t,
      cy_y, 32, cy_p, cy_e, cy_r, cy_e, cy_d, 32, cy_o, cy_t, cy_v, cy_e, cy_t, cy_o,
      cy_m, 10, 45, 32, CY_P, cy_r, cy_i, 32, cy_n, cy_e, cy_u, cy_v, cy_e, cy_r,
      cy_e, cy_n, cy_n, cy_o, cy_s, cy_t, cy_i, 44, 32, cy_u, cy_k, cy_a, cy_z, cy_y,
      cy_v, cy_a, cy_j, 32, cy_n, cy_a, 32, cy_o, cy_g, cy_r, cy_a, cy_n, cy_i, cy_ch,
      cy_e, cy_n, cy_i, cy_ya, 32, cy_z, cy_n, cy_a, cy_n, cy_i, cy_j, 10, 45, 32,
      CY_S, cy_s, cy_y, cy_l, cy_a, cy_j, cy_s, cy_ya, 32, cy_n, cy_a, 32, cy_i, cy_s,
      cy_t, cy_o, cy_ch, cy_n, cy_i, cy_k, cy_i, 32, cy_k, cy_o, cy_g, cy_d, cy_a, 32,
      cy_v, cy_o, cy_z, cy_m, cy_o, cy_zh, cy_n, cy_o]"

(* 'Uluchshena tochnost' otvetov' *)
definition reason_accuracy :: jstring where
  "reason_accuracy =
     [CY_U, cy_l, cy_u, cy_ch, cy_sh, cy_e, cy_n, cy_a, 32, cy_t, cy_o, cy_ch, cy_n, cy_o,
      cy_s, cy_t, cy_soft, 32, cy_o, cy_t, cy_v, cy_e, cy_t, cy_o, cy_v]"

(* '\n\n**Yasnost' Kommunikacii:**\n- Ispol'zuj prostoj i ponyatnyj yazyk\n- Strukturiruj
   otvety s zagolovkami i spiskami\n- Izbegaj izlishnej tehnicheskoj terminologii bez
   ob'yasnenij' *)
definition section_clarity :: jstring where
  "section_clarity =
     [10, 10, 42, 42, CY_YA, cy_s, cy_n, cy_o, cy_s, cy_t, cy_soft, 32, CY_K, cy_o,
      cy_m, cy_m, cy_u, cy_n, cy_i, cy_k, cy_a, cy_c, cy_i, cy_i, 58, 42, 42, 10,
      45, 32, CY_I, cy_s, cy_p, cy_o, cy_l, cy_soft, cy_z, cy_u, cy_j, 32, cy_p, cy_r,
      cy_o, cy_s, cy_t, cy_o, cy_j, 32, cy_i, 32, cy_p, cy_o, cy_n, cy_ya, cy_t, cy_n,
      cy_y, cy_j, 32, cy_ya, cy_z, cy_y, cy_k, 10, 45, 32, CY_S, cy_t, cy_r, cy_u,
      cy_k, cy_t, cy_u, cy_r, cy_i, cy_r, cy_u, cy_j, 32, cy_o, cy_t, cy_v, cy_e, cy_t,
      cy_y, 32, cy_s, 32, cy_z, cy_a, cy_g, cy_o, cy_l, cy_o, cy_v, cy_k, cy_a, cy_m,
      cy_i, 32, cy_i, 32, cy_s, cy_p, cy_i, cy_s, cy_k, cy_a, cy_m, cy_i, 10, 45,
      32, CY_I, cy_z, cy_b, cy_e, cy_g, cy_a, cy_j, 32, cy_i, cy_z, cy_l, cy_i, cy_sh,
      cy_n, cy_e, cy_j, 32, cy_t, cy_e, cy_h, cy_n, cy_i, cy_ch, cy_e, cy_s, cy_k, cy_o,
      cy_j, 32, cy_t, cy_e, cy_r, cy_m, cy_i, cy_n, cy_o, cy_l, cy_o, cy_g, cy_i, cy_i,
      32, cy_b, cy_e, cy_z, 32, cy_o, cy_b, cy_hard, cy_ya, cy_s, cy_n, cy_e, cy_n, cy_i,
      cy_j]"

(* 'Uluchshena yasnost' izlozheniya' *)
definition reason_clarity :: jstring where
  "reason_clarity =
     [CY_U, cy_l, cy_u, cy_ch, cy_sh, cy_e, cy_n, cy_a, 32, cy_ya, cy_s, cy_n, cy_o, cy_s,
      cy_t, cy_soft, 32, cy_i, cy_z, cy_l, cy_o, cy_zh, cy_e, cy_n, cy_i, cy_ya]"

(* '\n\n**Polnota Otvetov:**\n- Obespechivaj comprehensive coverage temy\n- Predvoshischaj
   follow-up voprosy\n- Predlagaj dopolnitel'nye resursy kogda umestno' *)
definition section_completeness :: jstring where
  "section_completeness =
     [10, 10, 42, 42, CY_P, cy_o, cy_l, cy_n, cy_o, cy_t, cy_a, 32, CY_O, cy_t,
      cy_v, cy_e, cy_t, cy_o, cy_v, 58, 42, 42, 10, 45, 32, CY_O, cy_b, cy_e,
      cy_s, cy_p, cy_e, cy_ch, cy_i, cy_v, cy_a, cy_j] @
     ascii '' comprehensive coverage'' @
     [32, cy_t, cy_e, cy_m, cy_y, 10, 45, 32, CY_P, cy_r, cy_e, cy_d, cy_v, cy_o,
      cy_s, cy_h, cy_i, cy_sch, cy_a, cy_j] @
     ascii '' follow-up'' @
     [32, cy_v, cy_o, cy_p, cy_r, cy_o, cy_s, cy_y, 10, 45, 32, CY_P, cy_r, cy_e,
      cy_d, cy_l, cy_a, cy_g, cy_a, cy_j, 32, cy_d, cy_o, cy_p, cy_o, cy_l, cy_n, cy_i,
      cy_t, cy_e, cy_l, cy_soft, cy_n, cy_y, cy_e, 32, cy_r, cy_e, cy_s, cy_u, cy_r, cy_s,
      cy_y, 32, cy_k, cy_o, cy_g, cy_d, cy_a, 32, cy_u, cy_m, cy_e, cy_s, cy_t, cy_n,
      cy_o]"

(* 'Uluchshena polnota otvetov' *)
definition reason_completeness :: jstring where
  "reason_completeness =
     [CY_U, cy_l, cy_u, cy_ch, cy_sh, cy_e, cy_n, cy_a, 32, cy_p, cy_o, cy_l, cy_n, cy_o,
      cy_t, cy_a, 32, cy_o, cy_t, cy_v, cy_e, cy_t, cy_o, cy_v]"

(* '\n\n**Relevantnost':**\n- Vnimatel'no analiziruj kontekst voprosa\n- Fokusirujsya na
   specific needs pol'zovatelya\n- Izbegaj otklonenij ot osnovnoj temy' *)
definition section_relevance :: jstring where
  "section_relevance =
     [10, 10, 42, 42, CY_R, cy_e, cy_l, cy_e, cy_v, cy_a, cy_n, cy_t, cy_n, cy_o,
      cy_s, cy_t, cy_soft, 58, 42, 42, 10, 45, 32, CY_V, cy_n, cy_i, cy_m, cy_a,
      cy_t, cy_e, cy_l, cy_soft, cy_n, cy_o, 32, cy_a, cy_n, cy_a, cy_l, cy_i, cy_z, cy_i,
      cy_r, cy_u, cy_j, 32, cy_k, cy_o, cy_n, cy_t, cy_e, cy_k, cy_s, cy_t, 32, cy_v,
      cy_o, cy_p, cy_r, cy_o, cy_s, cy_a, 10, 45, 32, CY_F, cy_o, cy_k, cy_u, cy_s,
      cy_i, cy_r, cy_u, cy_j, cy_s, cy_ya, 32, cy_n, cy_a] @
     ascii '' specific needs'' @
     [32, cy_p, cy_o, cy_l, cy_soft, cy_z, cy_o, cy_v, cy_a, cy_t, cy_e, cy_l, cy_ya, 10,
      45, 32, CY_I, cy_z, cy_b, cy_e, cy_g, cy_a, cy_j, 32, cy_o, cy_t, cy_k, cy_l,
      cy_o, cy_n, cy_e, cy_n, cy_i, cy_j, 32, cy_o, cy_t, 32, cy_o, cy_s, cy_n, cy_o,
      cy_v, cy_n, cy_o, cy_j, 32, cy_t, cy_e, cy_m, cy_y]"

(* 'Uluchshena relevantnost'' *)
definition reason_relevance :: jstring where
  "reason_relevance =
     [CY_U, cy_l, cy_u, cy_ch, cy_sh, cy_e, cy_n, cy_a, 32, cy_r, cy_e, cy_l, cy_e, cy_v,
      cy_a, cy_n, cy_t, cy_n, cy_o, cy_s, cy_t, cy_soft]"

(* '\n\n**Ton i Stil':**\n- Podderzhivaj druzhelyubnyj i professional'nyj ton\n- Proyavlyaj
   empatiyu k problemam pol'zovatelya\n- Izbegaj kategorichnyh utverzhdenij' *)
definition section_tone :: jstring where
  "section_tone =
     [10, 10, 42, 42, CY_T, cy_o, cy_n, 32, cy_i, 32, CY_S, cy_t, cy_i, cy_l,
      cy_soft, 58, 42, 42, 10, 45, 32, CY_P, cy_o, cy_d, cy_d, cy_e, cy_r, cy_zh,
      cy_i, cy_v, cy_a, cy_j, 32, cy_d, cy_r, cy_u, cy_zh, cy_e, cy_l, cy_yu, cy_b, cy_n,
      cy_y, cy_j, 32, cy_i, 32, cy_p, cy_r, cy_o, cy_f, cy_e, cy_s, cy_s, cy_i, cy_o,
      cy_n, cy_a, cy_l, cy_soft, cy_n, cy_y, cy_j, 32, cy_t, cy_o, cy_n, 10, 45, 32,
      CY_P, cy_r, cy_o, cy_ya, cy_v, cy_l, cy_ya, cy_j, 32, cy_eh, cy_m, cy_p, cy_a, cy_t,
      cy_i, cy_yu, 32, cy_k, 32, cy_p, cy_r, cy_o, cy_b, cy_l, cy_e, cy_m, cy_a, cy_m,
      32, cy_p, cy_o, cy_l, cy_soft, cy_z, cy_o, cy_v, cy_a, cy_t, cy_e, cy_l, cy_ya, 10,
      45, 32, CY_I, cy_z, cy_b, cy_e, cy_g, cy_a, cy_j, 32, cy_k, cy_a, cy_t, cy_e,
      cy_g, cy_o, cy_r, cy_i, cy_ch, cy_n, cy_y, cy_h, 32, cy_u, cy_t, cy_v, cy_e, cy_r,
      cy_zh, cy_d, cy_e, cy_n, cy_i, cy_j]"

(* 'Uluchshen ton obscheniya' *)
definition reason_tone :: jstring where
  "reason_tone =
     [CY_U, cy_l, cy_u, cy_ch, cy_sh, cy_e, cy_n, 32, cy_t, cy_o, cy_n, 32, cy_o, cy_b,
      cy_sch, cy_e, cy_n, cy_i, cy_ya]"

(* '\n\n**Special'nye Instrukcii na osnove pol'zovatel'skih korrektirovok:**\n' *)
definition section_corrections :: jstring where
  "section_corrections =
     [10, 10, 42, 42, CY_S, cy_p, cy_e, cy_c, cy_i, cy_a, cy_l, cy_soft, cy_n, cy_y,
      cy_e, 32, CY_I, cy_n, cy_s, cy_t, cy_r, cy_u, cy_k, cy_c, cy_i, cy_i, 32, cy_n,
      cy_a, 32, cy_o, cy_s, cy_n, cy_o, cy_v, cy_e, 32, cy_p, cy_o, cy_l, cy_soft, cy_z,
      cy_o, cy_v, cy_a, cy_t, cy_e, cy_l, cy_soft, cy_s, cy_k, cy_i, cy_h, 32, cy_k, cy_o,
      cy_r, cy_r, cy_e, cy_k, cy_t, cy_i, cy_r, cy_o, cy_v, cy_o, cy_k, 58, 42, 42,
      10]"

(* 'Dobavleny special'nye instrukcii' *)
definition reason_corrections :: jstring where
  "reason_corrections =
     [CY_D, cy_o, cy_b, cy_a, cy_v, cy_l, cy_e, cy_n, cy_y, 32, cy_s, cy_p, cy_e, cy_c,
      cy_i, cy_a, cy_l, cy_soft, cy_n, cy_y, cy_e, 32, cy_i, cy_n, cy_s, cy_t, cy_r, cy_u,
      cy_k, cy_c, cy_i, cy_i]"

definition patterns :: "(issue \<times> jstring list) list" where
  "patterns =
     [(Accuracy, patterns_accuracy), (Clarity, patterns_clarity),
      (Completeness, patterns_completeness), (Relevance, patterns_relevance),
      (Tone, patterns_tone)]"

text \<open>An issue counts when its keywords occur in at least two feedback texts.\<close>

definition identifyCommonIssues :: "FeedbackType list \<Rightarrow> issue list" where
  "identifyCommonIssues feedback =
     (let feedbackTexts = map (\<lambda>f. toLowerCase (user_feedback f)) feedback in
      map fst (filter (\<lambda>(issue', keywords).
                 length (filter (\<lambda>text'. someIncluded text' keywords) feedbackTexts) \<ge> 2)
               patterns))"

record FeedbackAnalysis =
  shouldImprove :: bool
  negativeFeedbackRatio :: rat
  averageConfidence :: rat
  commonIssues :: "issue list"
  totalFeedback :: nat

text \<open>
  The ratio and the average are exact rationals here; the caller passes at least three
  records, so the divisor is not zero. The source adds and divides doubles, and the two can
  differ at the threshold of the average: three scores of 0.7 sum to a double whose third is
  below 0.7, so the source improves where the exact average does not. No theorem below
  rests on the average: every improvement it states is decided by the ratio of negative
  feedback, and none states that an improvement does not happen for three or more records.
\<close>

definition analyzeAggregatedFeedback :: "FeedbackType list \<Rightarrow> FeedbackAnalysis" where
  "analyzeAggregatedFeedback feedback =
     (let totalFeedback' = length feedback;
          negativeFeedback = length (filter (\<lambda>f. feedback_type f = Correction
                                                 \<or> feedback_type f = Improvement) feedback);
          averageConfidence' = sum_list (map confidence_score feedback) / of_nat totalFeedback';
          commonIssues' = identifyCommonIssues feedback
      in \<lparr>shouldImprove = (of_nat negativeFeedback / of_nat totalFeedback' > (3 / 10 :: rat)
                            \<or> averageConfidence' < 7 / 10
                            \<or> length commonIssues' > 0),
          negativeFeedbackRatio = of_nat negativeFeedback / of_nat totalFeedback',
          averageConfidence = averageConfidence',
          commonIssues = commonIssues',
          totalFeedback = totalFeedback'\<rparr>)"

text \<open>The numbered list of corrections: \<open>`${index + 1}. ${correction.user_feedback}\n`\<close>.\<close>

fun correctionLines :: "nat \<Rightarrow> FeedbackType list \<Rightarrow> jstring" where
  "correctionLines index [] = []"
| "correctionLines index (correction # rest) =
     numberToString (int index + 1) @ ascii ''. '' @ user_feedback correction @ [10]
       @ correctionLines (index + 1) rest"

definition generateImprovedPrompt ::
  "Agent \<Rightarrow> FeedbackType list \<Rightarrow> FeedbackAnalysis \<Rightarrow> jstring \<times> jstring" where
  "generateImprovedPrompt agent feedback analysis =
     (let issues = commonIssues analysis;
          p0 = system_prompt agent;
          (p1, r1) = (if Accuracy \<in> set issues then (p0 @ section_accuracy, [reason_accuracy])
                      else (p0, []));
          (p2, r2) = (if Clarity \<in> set issues then (p1 @ section_clarity, r1 @ [reason_clarity])
                      else (p1, r1));
          (p3, r3) = (if Completeness \<in> set issues
                      then (p2 @ section_completeness, r2 @ [reason_completeness])
                      else (p2, r2));
          (p4, r4) = (if Relevance \<in> set issues then (p3 @ section_relevance, r3 @ [reason_relevance])
                      else (p3, r3));
          (p5, r5) = (if Tone \<in> set issues then (p4 @ section_tone, r4 @ [reason_tone])
                      else (p4, r4));
          corrections = filter (\<lambda>f. feedback_type f = Correction) feedback;
          (p6, r6) = (if length corrections > 0
                      then (p5 @ section_corrections @ correctionLines 0 corrections,
                            r5 @ [reason_corrections])
                      else (p5, r5))
      in (p6, join_js (ascii '', '') r6))"

subsection \<open>useAgents: getAgentById and updateAgent\<close>

text \<open>
  Both need a signed-in user and address the agent by id and owner; \<open>single()\<close> fails
  unless exactly one row matches. \<open>updateAgent\<close> is called with a new system prompt only.
\<close>

definition getAgentById :: "Store \<Rightarrow> uuid \<Rightarrow> Agent option" where
  "getAgentById st agentId' =
     (case user st of
        None \<Rightarrow> None
      | Some u \<Rightarrow>
          (case filter (\<lambda>a. id_a a = agentId' \<and> user_id_a a = u) (agents_tbl st) of
             [agent] \<Rightarrow> Some agent
           | _ \<Rightarrow> None))"

datatype agent_error = NotAuthorized | AgentRowNotFound | AgentMissing

definition updateAgent :: "Store \<Rightarrow> uuid \<Rightarrow> jstring \<Rightarrow> agent_error option \<times> Store" where
  "updateAgent st agentId' newPrompt =
     (case user st of
        None \<Rightarrow> (Some NotAuthorized, st)
      | Some u \<Rightarrow>
          let matches = (\<lambda>a. id_a a = agentId' \<and> user_id_a a = u);
              st1 = st\<lparr>agents_tbl := map (\<lambda>a. if matches a then a\<lparr>system_prompt := newPrompt\<rparr>
                                                else a) (agents_tbl st)\<rparr>
          in if length (filter matches (agents_tbl st)) = 1 then (None, st1)
             else (Some AgentRowNotFound, st1))"

subsection \<open>suggestPromptImprovement, analyzeFeedbackForImprovement, collectFeedback\<close>

text \<open>
  The log row is inserted before the agent is updated; an error of the update leaves the
  log row in place. The result carries the error thrown, if any, and the store as written.
\<close>

definition suggestPromptImprovement ::
  "Store \<Rightarrow> uuid \<Rightarrow> FeedbackType list \<Rightarrow> FeedbackAnalysis \<Rightarrow> agent_error option \<times> Store" where
  "suggestPromptImprovement st agentId' feedback analysis =
     (case getAgentById st agentId' of
        None \<Rightarrow> (Some AgentMissing, st)
      | Some agent \<Rightarrow>
          let (prompt, reason') = generateImprovedPrompt agent feedback analysis;
              improvementLog =
                \<lparr>id_l = next_uuid st, agent_id_l = agentId', old_prompt = system_prompt agent,
                 new_prompt = prompt, improvement_reason = reason',
                 feedback_ids = map id_f feedback,
                 performance_before = performance_metrics agent\<rparr>;
              st1 = st\<lparr>prompt_improvement_logs := prompt_improvement_logs st @ [improvementLog],
                      next_uuid := next_uuid st + 1\<rparr>
          in updateAgent st1 agentId' prompt)"

text \<open>
  The ten newest feedback rows of the agent, newest first. \<open>analyzeFeedbackForImprovement\<close>
  catches and logs every error of the improvement, so what a failed improvement has written
  stays written.
\<close>

definition recentFeedback :: "Store \<Rightarrow> uuid \<Rightarrow> FeedbackType list" where
  "recentFeedback st agentId' =
     take 10 (rev (filter (\<lambda>f. agent_id_f f = agentId') (agent_feedback st)))"

definition analyzeFeedbackForImprovement :: "Store \<Rightarrow> uuid \<Rightarrow> Store" where
  "analyzeFeedbackForImprovement st agentId' =
     (let recent = recentFeedback st agentId' in
      if length recent < 3 then st
      else
        let feedbackAnalysis = analyzeAggregatedFeedback recent in
        if shouldImprove feedbackAnalysis
        then snd (suggestPromptImprovement st agentId' recent feedbackAnalysis)
        else st)"

definition collectFeedback :: "Store \<Rightarrow> FeedbackInput \<Rightarrow> FeedbackType \<times> Store" where
  "collectFeedback st feedback =
     (let data = FeedbackInput.extend feedback (FeedbackType.fields (next_uuid st));
          st1 = st\<lparr>agent_feedback := agent_feedback st @ [data], next_uuid := next_uuid st + 1\<rparr>
      in (data, analyzeFeedbackForImprovement st1 (agent_id_f feedback)))"

section \<open>Concrete inputs\<close>

subsection \<open>Messages\<close>

text \<open>
  The message "URGENT: baza dannyh ne rabotaet, fajl pdf" matches the urgent patterns only
  through lower-casing, and matches the technical and the document patterns as well.
\<close>

definition urgentMixedMessage :: jstring where
  "urgentMixedMessage =
     ascii ''URGENT: '' @
     [cy_b, cy_a, cy_z, cy_a, 32, cy_d, cy_a, cy_n, cy_n, cy_y, cy_h, 32, cy_n, cy_e,
      32, cy_r, cy_a, cy_b, cy_o, cy_t, cy_a, cy_e, cy_t, 44, 32, cy_f, cy_a, cy_j,
      cy_l, 32, 112, 100, 102]"

text \<open>"kriticheskaya oshibka, sistema ne rabotaet" (critical error, the system does not work).\<close>

definition criticalErrorMessage :: jstring where
  "criticalErrorMessage =
     [cy_k, cy_r, cy_i, cy_t, cy_i, cy_ch, cy_e, cy_s, cy_k, cy_a, cy_ya, 32, cy_o, cy_sh,
      cy_i, cy_b, cy_k, cy_a, 44, 32, cy_s, cy_i, cy_s, cy_t, cy_e, cy_m, cy_a, 32,
      cy_n, cy_e, 32, cy_r, cy_a, cy_b, cy_o, cy_t, cy_a, cy_e, cy_t]"

text \<open>"pomnite" (do you remember), one of the history keywords, and a plain greeting.\<close>

definition rememberMessage :: jstring where
  "rememberMessage = [cy_p, cy_o, cy_m, cy_n, cy_i, cy_t, cy_e]"

definition greetingMessage :: jstring where
  "greetingMessage = ascii ''hello there''"

subsection \<open>A store with three agents and one chat\<close>

text \<open>
  The agents A, B and C have the ids 1, 2 and 3 and are stored in that order; 7 is the
  signed-in user, 10 the chat, and 100 the next id the database hands out.
\<close>

definition agentRow :: "uuid \<Rightarrow> string \<Rightarrow> Agent" where
  "agentRow i r =
     \<lparr>id_a = i, user_id_a = 7, name_a = ascii ''agent'', system_prompt = ascii ''Be helpful.'',
      role_a = r, performance_metrics = []\<rparr>"

definition demoStore :: Store where
  "demoStore =
     \<lparr>user = Some 7,
      agents_tbl = [agentRow 1 ''researcher'', agentRow 2 ''coder'', agentRow 3 ''writer''],
      chats_tbl = [10 \<mapsto> \<lparr>chat_type = ''general'', document_ids = []\<rparr>],
      documents_tbl = [], messages_tbl = [], agent_conversations = Map.empty,
      agent_feedback = [], prompt_improvement_logs = [], next_uuid = 100\<rparr>"

definition startABC :: StartRequest where
  "startABC = \<lparr>chatId_r = Some 10, agentIds_r = Some [1, 2, 3], topic_r = ascii ''testing'',
               maxTurns_r = Some 6\<rparr>"

definition startAB :: StartRequest where
  "startAB = \<lparr>chatId_r = Some 10, agentIds_r = Some [1, 2], topic_r = ascii ''testing'',
              maxTurns_r = Some 5\<rparr>"

definition demoContinue :: ContinueRequest where
  "demoContinue = \<lparr>chatId_q = 10, conversationId_q = 100\<rparr>"

text \<open>A conversation of A and B after two turns, in a given status.\<close>

definition storedConversation :: "status \<Rightarrow> Conversation" where
  "storedConversation s =
     \<lparr>chat_id = 10, agent_ids = [1, 2],
      conversation_state =
        \<lparr>currentTurn = 2, maxTurns = 5, agents = [1, 2], topic = ascii ''testing'', status = s,
         messages = [\<lparr>agentId = 1, agentName = Some (ascii ''agent''), content = ascii ''one'',
                      timestamp = 1\<rparr>,
                     \<lparr>agentId = 2, agentName = Some (ascii ''agent''), content = ascii ''two'',
                      timestamp = 2\<rparr>]\<rparr>,
      status_c = None\<rparr>"

definition storeWith :: "status \<Rightarrow> Store" where
  "storeWith s = demoStore\<lparr>agent_conversations := [100 \<mapsto> storedConversation s],
                           next_uuid := 101\<rparr>"

subsection \<open>Running a conversation\<close>

text \<open>Successive \<open>continue\<close> calls, one per time stamp, with the responses collected.\<close>

fun continueCalls ::
  "Store \<Rightarrow> ContinueRequest \<Rightarrow> int list \<Rightarrow> (error + ContinueResponse) list \<times> Store" where
  "continueCalls st rq [] = ([], st)"
| "continueCalls st rq (now # later) =
     (case continueConversation st now rq of
        (r, st1) \<Rightarrow> (case continueCalls st1 rq later of (rs, st2) \<Rightarrow> (r # rs, st2)))"

definition succeeded :: "'e + 'a \<Rightarrow> bool" where
  "succeeded r = (case r of Inl e \<Rightarrow> False | Inr v \<Rightarrow> True)"

text \<open>The agents of the chat transcript, in order, and the stored state of a conversation.\<close>

definition speakers :: "Store \<Rightarrow> uuid \<Rightarrow> uuid option list" where
  "speakers st chatId' = map agent_id_m (filter (\<lambda>m. chat_id_m m = chatId') (messages_tbl st))"

definition stateOf :: "Store \<Rightarrow> uuid \<Rightarrow> ConversationState option" where
  "stateOf st c = map_option conversation_state (agent_conversations st c)"

definition statusOf :: "Store \<Rightarrow> uuid \<Rightarrow> status option" where
  "statusOf st c = map_option status (stateOf st c)"

definition rowStatusOf :: "Store \<Rightarrow> uuid \<Rightarrow> status option" where
  "rowStatusOf st c = (case agent_conversations st c of None \<Rightarrow> None | Some row \<Rightarrow> status_c row)"

text \<open>
  A conversation of the two stored agents \<open>a\<close> and \<open>b\<close> that is active at turn \<open>k\<close> of
  five.
\<close>

definition running :: "uuid \<Rightarrow> uuid \<Rightarrow> uuid \<Rightarrow> nat \<Rightarrow> Store \<Rightarrow> bool" where
  "running cid a b k st \<longleftrightarrow>
     (\<exists>state. stateOf st cid = Some state \<and> status state = Active \<and> currentTurn state = k
        \<and> maxTurns state = 5 \<and> agents state = [a, b])
     \<and> (\<exists>rowA rowB. filter (\<lambda>x. id_a x = a) (agents_tbl st) = [rowA]
           \<and> filter (\<lambda>x. id_a x = b) (agents_tbl st) = [rowB])"

subsection \<open>Contexts\<close>

text \<open>A document context with no active documents, entered at time 0.\<close>

definition ragContext :: ConversationContext where
  "ragContext =
     \<lparr>chatId = 10, currentContext = ContextRag, activeDocuments = [], relevantHistory = [],
      contextScore = 85 / 100, lastSwitchTime = 0\<rparr>"

text \<open>"chto govoritsya v pdf" (what does the pdf say), a document reference.\<close>

definition documentMessage :: jstring where
  "documentMessage =
     [cy_ch, cy_t, cy_o, 32, cy_g, cy_o, cy_v, cy_o, cy_r, cy_i, cy_t, cy_s, cy_ya, 32,
      cy_v, 32, 112, 100, 102]"

subsection \<open>Feedback\<close>

text \<open>
  Three corrections for agent A, each naming an accuracy problem: "netochno" (inaccurate),
  "this is wrong" and "Incorrect answer".
\<close>

definition correction :: "jstring \<Rightarrow> FeedbackInput" where
  "correction t =
     \<lparr>agent_id_f = 1, message_id = None, feedback_type = Correction, original_response = None,
      suggested_response = None, user_feedback = t, confidence_score = 8 / 10\<rparr>"

definition correction1 :: FeedbackInput where
  "correction1 = correction [cy_n, cy_e, cy_t, cy_o, cy_ch, cy_n, cy_o]"

definition correction2 :: FeedbackInput where
  "correction2 = correction (ascii ''this is wrong'')"

definition correction3 :: FeedbackInput where
  "correction3 = correction (ascii ''Incorrect answer'')"

text \<open>
  The same store after agent A has been praised twice: two feedback records of type
  \<open>praise\<close>, with ids 50 and 51.
\<close>

definition praise :: "uuid \<Rightarrow> FeedbackType" where
  "praise i =
     \<lparr>agent_id_f = 1, message_id = None, feedback_type = Praise, original_response = None,
      suggested_response = None, user_feedback = ascii ''great answer'',
      confidence_score = 9 / 10, id_f = i\<rparr>"

definition praisedStore :: Store where
  "praisedStore = demoStore\<lparr>agent_feedback := [praise 50, praise 51]\<rparr>"

section \<open>Properties of the classifiers\<close>

subsection \<open>Evaluation of the keyword tests\<close>

lemma someIncluded_Nil [simp]: "someIncluded s [] = False"
  by (simp add: someIncluded_def)

lemma someIncluded_Cons [simp]:
  "someIncluded s (k # ks) = (includes_js s k \<or> someIncluded s ks)"
  by (simp add: someIncluded_def)

lemma someIncluded_append: "someIncluded s (ks @ ks') = (someIncluded s ks \<or> someIncluded s ks')"
  by (simp add: someIncluded_def)

lemma ascii_Nil [simp]: "ascii [] = []"
  by (simp add: ascii_def)

lemma ascii_Cons [simp]: "ascii (c # cs) = of_char c # ascii cs"
  by (simp add: ascii_def)

lemma includes_js_Nil [simp]: "includes_js s []"
  by (cases s) simp_all

lemma includes_js_iff: "includes_js s p \<longleftrightarrow> (\<exists>before after. s = before @ p @ after)"
proof (induction s)
  case Nil
  then show ?case by auto
next
  case (Cons c s)
  show ?case
  proof
    assume "includes_js (c # s) p"
    then consider "prefix p (c # s)" | "includes_js s p" by auto
    then show "\<exists>before after. c # s = before @ p @ after"
    proof cases
      case 1
      then obtain after where "c # s = p @ after" by (auto simp: prefix_def)
      then have "c # s = [] @ p @ after" by simp
      then show ?thesis by blast
    next
      case 2
      with Cons.IH obtain before after where "s = before @ p @ after" by blast
      then have "c # s = (c # before) @ p @ after" by simp
      then show ?thesis by blast
    qed
  next
    assume "\<exists>before after. c # s = before @ p @ after"
    then obtain before after where eq: "c # s = before @ p @ after" by blast
    show "includes_js (c # s) p"
    proof (cases before)
      case Nil
      with eq have "prefix p (c # s)" by (simp add: prefix_def)
      then show ?thesis by simp
    next
      case (Cons b before')
      with eq have "s = before' @ p @ after" by simp
      with Cons.IH have "includes_js s p" by blast
      then show ?thesis by simp
    qed
  qed
qed

subsection \<open>The urgent rule of classifyIntent\<close>

text \<open>
  The urgent test is the first of the chain. With a hook that provides the lookup, a message
  whose lower-cased text has an urgent pattern is classified \<open>urgent_support\<close> with priority
  \<open>urgent\<close> and escalation, whatever else it matches and whatever the lookup returns. With
  the hook as the sources have it, the same branch calls \<open>undefined\<close> and the promise is
  rejected.
\<close>

lemma classifyIntent_urgent_with_lookup:
  assumes "someIncluded (toLowerCase message) urgentPatterns"
  shows "classifyIntent (Some lookup) message =
           Inr (intentResult ''urgent_support'' (95 / 100) (firstId (lookup ''support'')) Urgent
                  True (Some autoResponse_urgent))"
  using assms by (simp add: classifyIntent_def withAgentsByRole_def Let_def)

lemma classifyIntent_urgent_without_lookup:
  assumes "someIncluded (toLowerCase message) urgentPatterns"
  shows "classifyIntent useAgents_getAgentsByRole message = Inl TypeError"
  using assms
  by (simp add: classifyIntent_def withAgentsByRole_def useAgents_getAgentsByRole_def Let_def)

text \<open>
  Without the lookup \<open>classifyIntent\<close> returns a result in two branches only: a feature
  request, and a message that matches no pattern at all.
\<close>

lemma classifyIntent_without_lookup_returns:
  "(\<exists>r. classifyIntent useAgents_getAgentsByRole message = Inr r) \<longleftrightarrow>
     \<not> someIncluded (toLowerCase message) urgentPatterns
   \<and> \<not> someIncluded (toLowerCase message)
         (technicalPatterns_high @ technicalPatterns_medium @ technicalPatterns_low)
   \<and> \<not> someIncluded (toLowerCase message) documentPatterns
   \<and> \<not> someIncluded (toLowerCase message) researchPatterns
   \<and> (someIncluded (toLowerCase message) featurePatterns
        \<or> \<not> someIncluded (toLowerCase message) bugPatterns)"
  by (simp add: classifyIntent_def withAgentsByRole_def useAgents_getAgentsByRole_def Let_def)

text \<open>
  C5. The message "URGENT: baza dannyh ne rabotaet, fajl pdf" contains the urgent pattern
  "urgent" once lower-cased (and not before), and patterns of the technical and the document
  families as well. \<open>classifyIntent\<close> enters the urgent branch, awaits
  \<open>getAgentsByRole('support')\<close>, which \<open>useAgents\<close> does not provide, and the promise is
  rejected with a \<open>TypeError\<close>: no result is returned, so neither priority \<open>urgent\<close> nor
  \<open>requiresEscalation = true\<close>.
\<close>

theorem classifyIntent_urgent_message_rejected:
  "someIncluded (toLowerCase urgentMixedMessage) urgentPatterns
   \<and> \<not> someIncluded urgentMixedMessage urgentPatterns
   \<and> someIncluded (toLowerCase urgentMixedMessage) technicalPatterns_high
   \<and> someIncluded (toLowerCase urgentMixedMessage) documentPatterns
   \<and> classifyIntent useAgents_getAgentsByRole urgentMixedMessage = Inl TypeError"
proof -
  have urgent: "someIncluded (toLowerCase urgentMixedMessage) urgentPatterns"
    by (simp add: urgentMixedMessage_def toLowerCase_def toLowerCaseUnit_def urgentPatterns_def)
  have raw: "\<not> someIncluded urgentMixedMessage urgentPatterns"
    by (simp add: urgentMixedMessage_def urgentPatterns_def)
  have technical: "someIncluded (toLowerCase urgentMixedMessage) technicalPatterns_high"
    by (simp add: urgentMixedMessage_def toLowerCase_def toLowerCaseUnit_def
        technicalPatterns_high_def)
  have document: "someIncluded (toLowerCase urgentMixedMessage) documentPatterns"
    by (simp add: urgentMixedMessage_def toLowerCase_def toLowerCaseUnit_def
        documentPatterns_def)
  have "classifyIntent useAgents_getAgentsByRole urgentMixedMessage = Inl TypeError"
    using urgent
    by (simp add: classifyIntent_def withAgentsByRole_def useAgents_getAgentsByRole_def Let_def)
  with urgent raw technical document show ?thesis by simp
qed

subsection \<open>classifySupportTicket\<close>

text \<open>
  C10. For every message, \<open>classifySupportTicket\<close> never returns the priority \<open>high\<close>, and
  it asks for human escalation exactly when the priority it returns is \<open>urgent\<close>.
\<close>

theorem classifySupportTicket_never_high:
  "priority_t (classifySupportTicket message) \<noteq> High
   \<and> (requiresHumanEscalation (classifySupportTicket message)
        \<longleftrightarrow> priority_t (classifySupportTicket message) = Urgent)"
  by (simp add: classifySupportTicket_def Let_def)

text \<open>
  C3. The message "kriticheskaya oshibka, sistema ne rabotaet" (critical error, the system
  does not work). \<open>classifySupportTicket\<close> finds the technical word "oshibka", none of the
  complexity words, and none of the escalation words: the list has the masculine
  "kriticheskij" where the message has the feminine "kriticheskaya". The result is category
  \<open>technical\<close> with priority \<open>low\<close> and no escalation, not priority \<open>urgent\<close> with
  escalation.
\<close>

theorem classifySupportTicket_critical_error_message:
  "classifySupportTicket criticalErrorMessage =
     \<lparr>category = Technical, priority_t = Low, complexity = Simple,
      estimatedResolutionTime = 15, requiresHumanEscalation = False\<rparr>"
  by (simp add: classifySupportTicket_def criticalErrorMessage_def toLowerCase_def
      toLowerCaseUnit_def technicalWords_def complexWords_def moderateWords_def
      escalationWords_def)

text \<open>
  \<open>classifyIntent\<close>, which \<open>autoRouteMessage\<close> runs on the same message before
  \<open>classifySupportTicket\<close>, does treat it as urgent: "kriticheskaya oshibka" is the first of
  its urgent patterns. With a hook that provides the lookup it returns priority \<open>urgent\<close>
  with escalation; with the hook of the sources it is rejected in that branch.
\<close>

lemma classifyIntent_critical_error_message:
  "someIncluded (toLowerCase criticalErrorMessage) urgentPatterns
   \<and> classifyIntent (Some lookup) criticalErrorMessage =
       Inr (intentResult ''urgent_support'' (95 / 100) (firstId (lookup ''support'')) Urgent
              True (Some autoResponse_urgent))
   \<and> classifyIntent useAgents_getAgentsByRole criticalErrorMessage = Inl TypeError"
  by (simp add: classifyIntent_def withAgentsByRole_def useAgents_getAgentsByRole_def
      criticalErrorMessage_def toLowerCase_def toLowerCaseUnit_def urgentPatterns_def)

section \<open>Properties of the multi-agent conversation engine\<close>

subsection \<open>Turn order\<close>

text \<open>
  A successful \<open>continue\<close> lets the agent at position \<open>currentTurn mod N\<close> speak, records
  the turn in the stored state and advances the counter by one; the status, the agent list
  and the turn limit stay as they are.
\<close>

lemma continueConversation_success:
  assumes "continueConversation st now rq = (Inr r, st')"
  shows "\<exists>conversation agent.
           agent_conversations st (conversationId_q rq) = Some conversation
         \<and> status (conversation_state conversation) = Active
         \<and> int (currentTurn (conversation_state conversation))
             < maxTurns (conversation_state conversation)
         \<and> agentAt (agents (conversation_state conversation))
             (currentTurn (conversation_state conversation)) = Some (id_a agent)
         \<and> stateOf st' (conversationId_q rq) = Some ((conversation_state conversation)
             \<lparr>currentTurn := currentTurn (conversation_state conversation) + 1,
              messages := messages (conversation_state conversation) @
                [\<lparr>agentId = id_a agent, agentName = Some (name_a agent),
                  content = agent_message r, timestamp = now\<rparr>]\<rparr>)
         \<and> messages_tbl st' = messages_tbl st @
             [agentMessageRow (chatId_q rq) agent (agent_message r) (conversationId_q rq)]"
proof -
  from assms obtain conversation where
    c: "agent_conversations st (conversationId_q rq) = Some conversation"
    by (auto simp: continueConversation_def split: option.splits)
  let ?state = "conversation_state conversation"
  from assms c have active: "status ?state = Active" "int (currentTurn ?state) < maxTurns ?state"
    by (auto simp: continueConversation_def Let_def split: if_splits)
  from assms c active obtain nextAgentId where
    n: "agentAt (agents ?state) (currentTurn ?state) = Some nextAgentId"
    by (auto simp: continueConversation_def Let_def split: option.splits)
  from assms c active n obtain agent where
    a: "filter (\<lambda>a. id_a a = nextAgentId) (agents_tbl st) = [agent]"
    by (auto simp: continueConversation_def Let_def split: list.splits)
  from a have "agent \<in> set (filter (\<lambda>a. id_a a = nextAgentId) (agents_tbl st))" by simp
  then have ida: "id_a agent = nextAgentId" by simp
  from assms c active n a ida show ?thesis
    by (auto simp: continueConversation_def Let_def stateOf_def)
qed

subsection \<open>Status\<close>

lemma continueConversation_statusOf:
  "statusOf (snd (continueConversation st now rq)) c = statusOf st c"
  by (auto simp: continueConversation_def Let_def statusOf_def stateOf_def
      split: option.splits list.splits)

lemma continueConversation_not_active:
  assumes "statusOf st (conversationId_q rq) \<noteq> Some Active"
  shows "continueConversation st now rq = (Inl ConversationNotFound, st)
       \<or> continueConversation st now rq = (Inl NotActive, st)"
  using assms
  by (auto simp: continueConversation_def Let_def statusOf_def stateOf_def split: option.splits)

lemma endConversation_statusOf:
  "statusOf (snd (endConversation st cid)) c =
     (if c = cid then map_option (\<lambda>s. Completed) (statusOf st c) else statusOf st c)"
  by (auto simp: endConversation_def Let_def statusOf_def stateOf_def split: option.splits)

lemma endConversation_hook_statusOf:
  "stateOf (endConversation_hook st cid) c = stateOf st c
   \<and> rowStatusOf (endConversation_hook st cid) c =
       (if c = cid \<and> agent_conversations st cid \<noteq> None then Some Completed
        else rowStatusOf st c)"
  by (auto simp: endConversation_hook_def stateOf_def rowStatusOf_def split: option.splits)

lemma setChatType_conversations [simp]:
  "agent_conversations (setChatType chatId' t st) = agent_conversations st"
  by (simp add: setChatType_def split: option.splits)

lemma startMultiAgentConversation_statusOf:
  assumes "agent_conversations st (next_uuid st) = None"
  shows "statusOf (snd (startMultiAgentConversation st req)) c = statusOf st c
       \<or> (statusOf st c = None \<and> statusOf (snd (startMultiAgentConversation st req)) c = Some Active)"
  using assms
  by (auto simp: startMultiAgentConversation_def Let_def statusOf_def stateOf_def
      split: option.splits list.splits)

subsection \<open>Refusals and the run of a two-agent conversation\<close>

lemma startMultiAgentConversation_too_few:
  assumes "agentIds_r req = Some ids" and "length ids < 2"
  shows "startMultiAgentConversation st req = (Inl InvalidInput, st)"
  using assms by (simp add: startMultiAgentConversation_def split: option.splits)

lemma startMultiAgentConversation_missing:
  assumes "chatId_r req = None \<or> agentIds_r req = None"
  shows "startMultiAgentConversation st req = (Inl InvalidInput, st)"
  using assms by (auto simp: startMultiAgentConversation_def split: option.splits)

lemma continueConversation_at_limit:
  assumes "stateOf st (conversationId_q rq) = Some state"
    and "int (currentTurn state) \<ge> maxTurns state"
  shows "continueConversation st now rq = (Inl NotActive, st)"
  using assms by (auto simp: continueConversation_def stateOf_def Let_def split: option.splits)

lemma length_filter_disjoint:
  assumes "\<And>x. \<not> (P x \<and> Q x)"
  shows "length (filter (\<lambda>x. P x \<or> Q x) xs) = length (filter P xs) + length (filter Q xs)"
  using assms by (induction xs) auto

lemma running_step:
  assumes "running (conversationId_q rq) a b k st" and "k < 5"
  shows "\<exists>r st'. continueConversation st now rq = (Inr r, st')
           \<and> should_continue r = (k + 1 < 5)
           \<and> running (conversationId_q rq) a b (k + 1) st'"
proof -
  from assms obtain state rowA rowB where
    s: "stateOf st (conversationId_q rq) = Some state" "status state = Active"
       "currentTurn state = k" "maxTurns state = 5" "agents state = [a, b]"
    and rows: "filter (\<lambda>x. id_a x = a) (agents_tbl st) = [rowA]"
       "filter (\<lambda>x. id_a x = b) (agents_tbl st) = [rowB]"
    by (auto simp: running_def)
  from s(1) obtain conversation where
    c: "agent_conversations st (conversationId_q rq) = Some conversation"
       "conversation_state conversation = state"
    by (auto simp: stateOf_def)
  have at: "agentAt [a, b] k = Some (if even k then a else b)"
    by (auto simp: agentAt_def numeral_2_eq_2 [symmetric] nth_Cons' odd_iff_mod_2_eq_one)
  show ?thesis
  proof (cases "even k")
    case True
    with at c s rows assms(2) show ?thesis
      by (simp add: continueConversation_def Let_def running_def stateOf_def)
  next
    case False
    with at c s rows assms(2) show ?thesis
      by (simp add: continueConversation_def Let_def running_def stateOf_def)
  qed
qed

lemma start_running:
  assumes rows: "filter (\<lambda>x. id_a x = a) (agents_tbl st) = [rowA]"
      "filter (\<lambda>x. id_a x = b) (agents_tbl st) = [rowB]"
    and distinct: "a \<noteq> b"
    and req: "chatId_r req = Some c" "agentIds_r req = Some [a, b]"
      "maxTurns_r req = Some 5 \<or> maxTurns_r req = None"
  shows "\<exists>r st0. startMultiAgentConversation st req = (Inr r, st0)
           \<and> conversation_id r = next_uuid st
           \<and> running (next_uuid st) a b 0 st0"
proof -
  let ?fetched = "filter (\<lambda>x. id_a x \<in> set [a, b]) (agents_tbl st)"
  have "length (filter (\<lambda>x. id_a x = a \<or> id_a x = b) (agents_tbl st))
      = length (filter (\<lambda>x. id_a x = a) (agents_tbl st))
        + length (filter (\<lambda>x. id_a x = b) (agents_tbl st))"
    using distinct by (intro length_filter_disjoint) auto
  with rows have len: "length ?fetched = 2" by simp
  then obtain firstAgent others where fetched: "?fetched = firstAgent # others"
    by (cases ?fetched) auto
  have limit: "(case maxTurns_r req of None \<Rightarrow> 5 | Some m \<Rightarrow> m) = (5 :: int)"
    using req(3) by auto
  show ?thesis
    using req(1,2) len fetched limit rows
    by (simp add: startMultiAgentConversation_def Let_def running_def stateOf_def setChatType_def
        split: option.splits)
qed

subsection \<open>The scenarios of the specification\<close>

text \<open>
  C1. A conversation of A, B and C (ids 1, 2, 3) with a limit of six turns: \<open>start\<close>
  produces A's opening message and answers that B is next at turn 1, but it stores
  \<open>currentTurn = 0\<close> and no message; the first \<open>continue\<close> therefore lets A speak again. The
  transcript of the opening message and six \<open>continue\<close> calls is A, A, B, C, A, B, C: the
  first six speakers are A, A, B, C, A, B and not A, B, C, A, B, C. Only the turns recorded
  in the stored state, which leave the opening message out, run A, B, C, A, B, C.
\<close>

theorem round_robin_transcript_ABC:
  "(case startMultiAgentConversation demoStore startABC of
      (r0, st0) \<Rightarrow>
        (case continueCalls st0 demoContinue [1, 2, 3, 4, 5, 6] of
           (rs, st6) \<Rightarrow>
             map_sum id (\<lambda>r. (conversation_id r, next_agent_s r, turn_s r)) r0
               = Inr (100, Some 2, 1)
           \<and> map_option currentTurn (stateOf st0 100) = Some 0
           \<and> speakers st0 10 = [Some 1]
           \<and> map succeeded rs = [True, True, True, True, True, True]
           \<and> speakers st6 10 = [Some 1, Some 1, Some 2, Some 3, Some 1, Some 2, Some 3]
           \<and> take 6 (speakers st6 10) \<noteq> [Some 1, Some 2, Some 3, Some 1, Some 2, Some 3]
           \<and> map_option (\<lambda>s. map agentId (messages s)) (stateOf st6 100)
               = Some [1, 2, 3, 1, 2, 3]))"
  by (simp add: startMultiAgentConversation_def continueConversation_def demoStore_def
      startABC_def demoContinue_def agentRow_def setChatType_def agentMessageRow_def agentAt_def
      recentMessages_def firstId_def succeeded_def speakers_def stateOf_def Let_def mod_Suc)

text \<open>
  C2. A conversation of A and B with \<open>maxTurns = 5\<close>: five \<open>continue\<close> calls succeed and
  bring \<open>currentTurn\<close> to 5, but the stored status is then still \<open>active\<close>, not
  \<open>completed\<close>: \<open>continue\<close> writes the turn counter and the messages and never the
  status.
\<close>

theorem five_turns_leave_status_active:
  "(case startMultiAgentConversation demoStore startAB of
      (r0, st0) \<Rightarrow>
        (case continueCalls st0 demoContinue [1, 2, 3, 4, 5] of
           (rs, st5) \<Rightarrow>
             succeeded r0
           \<and> map succeeded rs = [True, True, True, True, True]
           \<and> map_option currentTurn (stateOf st5 100) = Some 5
           \<and> map_option maxTurns (stateOf st5 100) = Some 5
           \<and> statusOf st5 100 = Some Active
           \<and> statusOf st5 100 \<noteq> Some Completed))"
  by (simp add: startMultiAgentConversation_def continueConversation_def demoStore_def
      startAB_def demoContinue_def agentRow_def setChatType_def agentMessageRow_def
      agentAt_def recentMessages_def firstId_def succeeded_def statusOf_def stateOf_def Let_def
      mod_Suc)

text \<open>
  C2, amended. \<open>start\<close> with fewer than two agent ids fails with \<open>InvalidInput\<close> and
  leaves the store as it was. For two distinct agents, each stored once, and
  \<open>maxTurns = 5\<close> (given or by default), \<open>start\<close> succeeds and five \<open>continue\<close> calls for
  the new conversation succeed; the first four report \<open>should_continue = true\<close> and the
  fifth \<open>false\<close>. They bring \<open>currentTurn\<close> to 5, the turn limit, while the stored status
  stays \<open>active\<close>. A sixth call fails with \<open>NotActive\<close>, by the turn limit, and leaves the
  store as it was.
\<close>

theorem start_and_five_turns:
  assumes rows: "filter (\<lambda>x. id_a x = a) (agents_tbl st) = [rowA]"
      "filter (\<lambda>x. id_a x = b) (agents_tbl st) = [rowB]"
    and distinct: "a \<noteq> b"
    and req: "chatId_r req = Some c" "agentIds_r req = Some [a, b]"
      "maxTurns_r req = Some 5 \<or> maxTurns_r req = None"
    and rq: "conversationId_q rq = next_uuid st"
  shows "(length ids < 2 \<longrightarrow>
            startMultiAgentConversation st' (req'\<lparr>agentIds_r := Some ids\<rparr>)
              = (Inl InvalidInput, st'))
       \<and> (case startMultiAgentConversation st req of
            (r0, st0) \<Rightarrow>
              (case continueCalls st0 rq [ta, tb, tc, td, te] of
                 (rs, st5) \<Rightarrow>
                   map_sum id conversation_id r0 = Inr (next_uuid st)
                 \<and> map (map_sum id should_continue) rs
                     = [Inr True, Inr True, Inr True, Inr True, Inr False]
                 \<and> map_option currentTurn (stateOf st5 (next_uuid st)) = Some 5
                 \<and> map_option maxTurns (stateOf st5 (next_uuid st)) = Some 5
                 \<and> statusOf st5 (next_uuid st) = Some Active
                 \<and> continueConversation st5 tf rq = (Inl NotActive, st5)))"
proof -
  from start_running [OF rows distinct req] obtain r0 st0 where
    start: "startMultiAgentConversation st req = (Inr r0, st0)"
    and id: "conversation_id r0 = next_uuid st"
    and run0: "running (conversationId_q rq) a b 0 st0"
    unfolding rq by blast
  from running_step [OF run0, of ta] obtain r1 st1 where
    c1: "continueConversation st0 ta rq = (Inr r1, st1)" "should_continue r1"
    and run1: "running (conversationId_q rq) a b 1 st1"
    by (auto simp: eval_nat_numeral)
  from running_step [OF run1, of tb] obtain r2 st2 where
    c2: "continueConversation st1 tb rq = (Inr r2, st2)" "should_continue r2"
    and run2: "running (conversationId_q rq) a b 2 st2"
    by (auto simp: eval_nat_numeral)
  from running_step [OF run2, of tc] obtain r3 st3 where
    c3: "continueConversation st2 tc rq = (Inr r3, st3)" "should_continue r3"
    and run3: "running (conversationId_q rq) a b 3 st3"
    by (auto simp: eval_nat_numeral)
  from running_step [OF run3, of td] obtain r4 st4 where
    c4: "continueConversation st3 td rq = (Inr r4, st4)" "should_continue r4"
    and run4: "running (conversationId_q rq) a b 4 st4"
    by (auto simp: eval_nat_numeral)
  from running_step [OF run4, of te] obtain r5 st5 where
    c5: "continueConversation st4 te rq = (Inr r5, st5)" "\<not> should_continue r5"
    and run5: "running (conversationId_q rq) a b 5 st5"
    by (auto simp: eval_nat_numeral)
  from run5 obtain state where
    final: "stateOf st5 (conversationId_q rq) = Some state" "status state = Active"
      "currentTurn state = 5" "maxTurns state = 5"
    by (auto simp: running_def)
  from continueConversation_at_limit [OF final(1), of tf] final
  have c6: "continueConversation st5 tf rq = (Inl NotActive, st5)" by simp
  have calls: "continueCalls st0 rq [ta, tb, tc, td, te] = ([Inr r1, Inr r2, Inr r3, Inr r4, Inr r5], st5)"
    by (simp add: c1 c2 c3 c4 c5)
  have few: "length ids < 2 \<longrightarrow>
      startMultiAgentConversation st' (req'\<lparr>agentIds_r := Some ids\<rparr>) = (Inl InvalidInput, st')"
    by (simp add: startMultiAgentConversation_too_few)
  from few start id calls c1 c2 c3 c4 c5 c6 final rq show ?thesis
    by (simp add: statusOf_def)
qed

theorem start_and_five_turns_witness:
  "filter (\<lambda>x. id_a x = 1) (agents_tbl demoStore) = [agentRow 1 ''researcher'']
   \<and> filter (\<lambda>x. id_a x = 2) (agents_tbl demoStore) = [agentRow 2 ''coder'']
   \<and> chatId_r startAB = Some 10 \<and> agentIds_r startAB = Some [1, 2]
   \<and> maxTurns_r startAB = Some 5
   \<and> conversationId_q demoContinue = next_uuid demoStore
   \<and> startMultiAgentConversation demoStore (startAB\<lparr>agentIds_r := Some [1]\<rparr>)
       = (Inl InvalidInput, demoStore)
   \<and> (case startMultiAgentConversation demoStore startAB of
        (r0, st0) \<Rightarrow>
          (case continueCalls st0 demoContinue [1, 2, 3, 4, 5] of
             (rs, st5) \<Rightarrow>
               map (map_sum id should_continue) rs
                 = [Inr True, Inr True, Inr True, Inr True, Inr False]
             \<and> map_option currentTurn (stateOf st5 100) = Some 5
             \<and> statusOf st5 100 = Some Active
             \<and> continueConversation st5 6 demoContinue = (Inl NotActive, st5)))"
proof -
  have rows: "filter (\<lambda>x. id_a x = 1) (agents_tbl demoStore) = [agentRow 1 ''researcher'']"
    "filter (\<lambda>x. id_a x = 2) (agents_tbl demoStore) = [agentRow 2 ''coder'']"
    by (simp_all add: demoStore_def agentRow_def)
  have distinct: "(1 :: uuid) \<noteq> 2" by simp
  have req: "chatId_r startAB = Some 10" "agentIds_r startAB = Some [1, 2]"
    "maxTurns_r startAB = Some 5 \<or> maxTurns_r startAB = None"
    by (simp_all add: startAB_def)
  have limit: "maxTurns_r startAB = Some 5"
    by (simp add: startAB_def)
  have rq: "conversationId_q demoContinue = next_uuid demoStore"
    by (simp add: demoContinue_def demoStore_def)
  have next': "next_uuid demoStore = 100"
    by (simp add: demoStore_def)
  obtain r0 st0 where s: "startMultiAgentConversation demoStore startAB = (r0, st0)"
    by (cases "startMultiAgentConversation demoStore startAB")
  obtain rs st5 where c: "continueCalls st0 demoContinue [1, 2, 3, 4, 5] = (rs, st5)"
    by (cases "continueCalls st0 demoContinue [1, 2, 3, 4, 5]")
  from start_and_five_turns [OF rows distinct req rq, where ids = "[1]" and st' = demoStore
         and req' = startAB and ta = 1 and tb = 2 and tc = 3 and td = 4 and te = 5 and tf = 6]
       rows req(1,2) limit rq
  show ?thesis
    by (simp del: continueCalls.simps add: next' s c)
qed

text \<open>
  The client hook's \<open>continueConversation\<close> does set the status at the turn limit, but it
  has no guard: on a conversation that was ended after two of five turns it puts the status
  back to \<open>active\<close>.
\<close>

lemma continueConversation_hook_sets_status:
  "statusOf (storeWith Completed) 100 = Some Completed
   \<and> statusOf (snd (continueConversation_hook (storeWith Completed) 3 100 1 (ascii ''three''))) 100
       = Some Active
   \<and> statusOf (snd (continueConversation_hook
        (demoStore\<lparr>agent_conversations := [100 \<mapsto> (storedConversation Active)
           \<lparr>conversation_state := (conversation_state (storedConversation Active))
              \<lparr>currentTurn := 4\<rparr>\<rparr>]\<rparr>) 5 100 1 (ascii ''five''))) 100
       = Some Completed"
  by (simp add: continueConversation_hook_def storeWith_def demoStore_def storedConversation_def
      statusOf_def stateOf_def Let_def)

text \<open>
  C7. The specification allows the moves active to paused, completed or cancelled, and
  paused to active, and none out of completed or cancelled. \<open>endConversation\<close> has no
  guard: it rewrites a cancelled conversation to completed.
\<close>

theorem endConversation_leaves_cancelled:
  "statusOf (storeWith Cancelled) 100 = Some Cancelled
   \<and> statusOf (snd (endConversation (storeWith Cancelled) 100)) 100 = Some Completed
   \<and> succeeded (fst (endConversation (storeWith Cancelled) 100))"
  by (simp add: endConversation_def storeWith_def demoStore_def storedConversation_def
      statusOf_def stateOf_def succeeded_def Let_def)

text \<open>
  C7, amended. In the edge function the stored status changes in two ways only: \<open>start\<close>
  adds a conversation with status \<open>active\<close> (under an id the database has not used), and
  \<open>end\<close> sets the status of the conversation it addresses to \<open>completed\<close>, whatever it was.
  \<open>continue\<close> changes no status and succeeds only on a conversation whose status is
  \<open>active\<close>. The hook's \<open>endConversation\<close> sets the row's status column to \<open>completed\<close> and
  leaves the stored state alone. So a completed conversation stays completed under each of
  these operations, and a paused or cancelled one stays as it is until \<open>end\<close> completes it.
\<close>

theorem status_moves_only_to_completed:
  "statusOf (snd (continueConversation st now rq)) c = statusOf st c
   \<and> (succeeded (fst (continueConversation st now rq))
        \<longrightarrow> statusOf st (conversationId_q rq) = Some Active)
   \<and> statusOf (snd (endConversation st cid)) c =
        (if c = cid then map_option (\<lambda>s. Completed) (statusOf st c) else statusOf st c)
   \<and> stateOf (endConversation_hook st cid) c = stateOf st c
   \<and> rowStatusOf (endConversation_hook st cid) c =
        (if c = cid \<and> agent_conversations st cid \<noteq> None then Some Completed
         else rowStatusOf st c)
   \<and> (agent_conversations st (next_uuid st) = None
        \<longrightarrow> statusOf (snd (startMultiAgentConversation st req)) c = statusOf st c
          \<or> (statusOf st c = None
              \<and> statusOf (snd (startMultiAgentConversation st req)) c = Some Active))"
proof -
  have "statusOf st (conversationId_q rq) = Some Active"
    if "succeeded (fst (continueConversation st now rq))"
  proof (rule ccontr)
    assume "statusOf st (conversationId_q rq) \<noteq> Some Active"
    from continueConversation_not_active [OF this, of now] that show False
      by (auto simp: succeeded_def)
  qed
  with continueConversation_statusOf [of st now rq c] endConversation_statusOf [of st cid c]
    endConversation_hook_statusOf [of st cid c] startMultiAgentConversation_statusOf [of st req c]
  show ?thesis by blast
qed

theorem status_moves_only_to_completed_witness:
  "statusOf (storeWith Completed) 100 = Some Completed
   \<and> statusOf (snd (continueConversation (storeWith Completed) 3 demoContinue)) 100
       = Some Completed
   \<and> \<not> succeeded (fst (continueConversation (storeWith Completed) 3 demoContinue))
   \<and> statusOf (snd (endConversation (storeWith Completed) 100)) 100 = Some Completed
   \<and> agent_conversations (storeWith Completed) (next_uuid (storeWith Completed)) = None
   \<and> statusOf (snd (startMultiAgentConversation (storeWith Completed) startAB)) 100
       = Some Completed
   \<and> statusOf (snd (startMultiAgentConversation (storeWith Completed) startAB)) 101
       = Some Active
   \<and> succeeded (fst (continueConversation (storeWith Active) 3 demoContinue))
   \<and> statusOf (storeWith Active) (conversationId_q demoContinue) = Some Active"
proof -
  have completed: "statusOf (storeWith Completed) 100 = Some Completed"
    by (simp add: storeWith_def demoStore_def storedConversation_def statusOf_def stateOf_def)
  have fresh: "agent_conversations (storeWith Completed) (next_uuid (storeWith Completed)) = None"
    by (simp add: storeWith_def demoStore_def)
  have new: "statusOf (snd (startMultiAgentConversation (storeWith Completed) startAB)) 101
      = Some Active"
    by (simp add: startMultiAgentConversation_def storeWith_def demoStore_def startAB_def
        agentRow_def setChatType_def statusOf_def stateOf_def Let_def)
  have ok: "succeeded (fst (continueConversation (storeWith Active) 3 demoContinue))"
    by (simp add: continueConversation_def storeWith_def demoStore_def storedConversation_def
        demoContinue_def agentRow_def agentAt_def succeeded_def Let_def numeral_2_eq_2 mod_Suc)
  have refused: "\<not> succeeded (fst (continueConversation (storeWith Completed) 3 demoContinue))"
    by (simp add: continueConversation_def storeWith_def demoStore_def storedConversation_def
        demoContinue_def succeeded_def Let_def)
  from status_moves_only_to_completed
         [of "storeWith Completed" 3 demoContinue 100 100 startAB]
       status_moves_only_to_completed
         [of "storeWith Active" 3 demoContinue 100 100 startAB]
       completed fresh new ok refused
  show ?thesis by simp
qed

text \<open>
  C8. Ending a conversation that exists succeeds twice with the same response (the same
  summary, total turns and total messages), and the second call changes nothing but the
  chat transcript, to which it appends the summary row once more: the conversation table,
  and with it the stored state, is as the first call left it.
\<close>

theorem endConversation_idempotent:
  assumes "agent_conversations st cid = Some conversation"
  shows "\<exists>r st1 st2.
           endConversation st cid = (Inr r, st1)
         \<and> endConversation st1 cid = (Inr r, st2)
         \<and> total_turns r = currentTurn (conversation_state conversation)
         \<and> total_messages r = length (messages (conversation_state conversation))
         \<and> agent_conversations st2 = agent_conversations st1
         \<and> st2 = st1\<lparr>messages_tbl := messages_tbl st1 @
                       [summaryRow (chat_id conversation) (summary r) cid]\<rparr>"
  using assms by (simp add: endConversation_def Let_def)

theorem endConversation_idempotent_witness:
  "agent_conversations (storeWith Active) 100 = Some (storedConversation Active)
   \<and> (case endConversation (storeWith Active) 100 of
        (r1, st1) \<Rightarrow>
          (case endConversation st1 100 of
             (r2, st2) \<Rightarrow>
               succeeded r1 \<and> r2 = r1
             \<and> map_sum id (\<lambda>r. (total_turns r, total_messages r)) r2 = Inr (2, 2)
             \<and> agent_conversations st2 = agent_conversations st1
             \<and> statusOf st2 100 = Some Completed))"
proof -
  have stored: "agent_conversations (storeWith Active) 100 = Some (storedConversation Active)"
    by (simp add: storeWith_def)
  from endConversation_idempotent [OF stored] obtain r st1 st2 where
    calls: "endConversation (storeWith Active) 100 = (Inr r, st1)"
           "endConversation st1 100 = (Inr r, st2)"
    and totals: "total_turns r = currentTurn (conversation_state (storedConversation Active))"
           "total_messages r = length (messages (conversation_state (storedConversation Active)))"
    and same: "agent_conversations st2 = agent_conversations st1"
    by blast
  from endConversation_statusOf [of "storeWith Active" 100 100] stored calls
  have "statusOf st1 100 = Some Completed"
    by (simp add: statusOf_def stateOf_def)
  with same have "statusOf st2 100 = Some Completed"
    by (simp add: statusOf_def stateOf_def)
  with stored calls totals same show ?thesis
    by (simp add: succeeded_def storedConversation_def)
qed

section \<open>Properties of context switching\<close>

lemma keywordStage_no_keywords:
  assumes "\<not> someIncluded (toLowerCase message) documentKeywords"
    and "\<not> someIncluded (toLowerCase message) historyKeywords"
    and "\<not> someIncluded (toLowerCase message) agentTaskKeywords"
    and "\<not> someIncluded (toLowerCase message) technicalKeywords"
  shows "keywordStage getAgentsByRole st message chatId' =
           Inr \<lparr>shouldSwitch = False, newContext = ContextGeneral, confidence_s = 5 / 10,
                reasoning_s = [], suggestedDocuments = [], relevantHistory_s = [],
                suggestedAgent = None\<rparr>"
  using assms by (simp add: keywordStage_def Let_def)

text \<open>
  Where the message has an agent-task or a technical keyword (and no document or history
  keyword), a rejection of \<open>classifyIntent\<close> rejects the analysis.
\<close>

lemma analyzeContextSwitch_rejected:
  assumes "\<not> someIncluded (toLowerCase message) documentKeywords"
    and "\<not> someIncluded (toLowerCase message) historyKeywords"
    and "someIncluded (toLowerCase message) agentTaskKeywords
         \<or> someIncluded (toLowerCase message) technicalKeywords"
    and "classifyIntent getAgentsByRole message = Inl e"
  shows "analyzeContextSwitch getAgentsByRole st now message chatId' currentChatContext = Inl e"
  using assms by (simp add: analyzeContextSwitch_def keywordStage_def Let_def)

text \<open>
  The bonus for a recent switch never decides anything: where the score is not overwritten
  it is 0.7 or 0.9, both above the threshold 0.6, and where it is overwritten (0.4, 0.5) the
  bonus is lost. The result of \<open>analyzeContextSwitch\<close> does not depend on the time of the
  last switch.
\<close>

lemma effectiveness_switch_independent_of_time:
  "(score (analyzeCurrentContextEffectiveness now (context'\<lparr>lastSwitchTime := t\<rparr>) message) < 6 / 10)
     = (score (analyzeCurrentContextEffectiveness now context' message) < 6 / 10)
   \<and> suggestedContext (analyzeCurrentContextEffectiveness now (context'\<lparr>lastSwitchTime := t\<rparr>) message)
     = suggestedContext (analyzeCurrentContextEffectiveness now context' message)
   \<and> confidence_e (analyzeCurrentContextEffectiveness now (context'\<lparr>lastSwitchTime := t\<rparr>) message)
     = confidence_e (analyzeCurrentContextEffectiveness now context' message)
   \<and> reason (analyzeCurrentContextEffectiveness now (context'\<lparr>lastSwitchTime := t\<rparr>) message)
     = reason (analyzeCurrentContextEffectiveness now context' message)"
  by (simp add: analyzeCurrentContextEffectiveness_def Let_def)

lemma analyzeContextSwitch_independent_of_time:
  "analyzeContextSwitch getAgentsByRole st now message chatId'
     (Some (context'\<lparr>lastSwitchTime := t\<rparr>))
   = analyzeContextSwitch getAgentsByRole st now message chatId' (Some context')"
  using effectiveness_switch_independent_of_time [of now t context' message]
  by (simp add: analyzeContextSwitch_def Let_def split: sum.splits)

text \<open>
  C4. A chat without documents. The message "chto govoritsya v pdf" switches it to the
  document context with no suggested documents; that is the context \<open>ragContext\<close>, entered
  at time 0. One minute later a greeting, which matches none of the keyword families, is
  analysed against that context: the call reports \<open>shouldSwitch = true\<close> again (to
  \<open>general\<close>). Both calls, one minute apart, report a switch.
\<close>

theorem recent_switch_not_suppressed:
  "\<exists>first second.
     analyzeContextSwitch useAgents_getAgentsByRole demoStore 0 documentMessage 10 None
       = Inr first
   \<and> analyzeContextSwitch useAgents_getAgentsByRole demoStore 60000 greetingMessage 10
       (Some ragContext) = Inr second
   \<and> (shouldSwitch first, newContext first, suggestedDocuments first, confidence_s first)
       = (True, ContextRag, activeDocuments ragContext, contextScore ragContext)
   \<and> (of_int (60000 - lastSwitchTime ragContext) :: rat) / (1000 * 60) < 5
   \<and> \<not> someIncluded (toLowerCase greetingMessage)
         (documentKeywords @ historyKeywords @ agentTaskKeywords @ technicalKeywords)
   \<and> (shouldSwitch second, newContext second) = (True, ContextGeneral)"
proof -
  have lower: "toLowerCase greetingMessage = greetingMessage"
    by (simp add: greetingMessage_def toLowerCase_def toLowerCaseUnit_def)
  have none: "\<not> someIncluded greetingMessage documentKeywords"
    "\<not> someIncluded greetingMessage historyKeywords"
    "\<not> someIncluded greetingMessage agentTaskKeywords"
    "\<not> someIncluded greetingMessage technicalKeywords"
    "\<not> someIncluded greetingMessage docKeywords"
    by (simp_all add: greetingMessage_def documentKeywords_def historyKeywords_def
        agentTaskKeywords_def technicalKeywords_def docKeywords_def)
  have first: "keywordStage useAgents_getAgentsByRole demoStore documentMessage 10 =
      Inr \<lparr>shouldSwitch = True, newContext = ContextRag, confidence_s = 85 / 100,
           reasoning_s = ascii
             ''User is referencing documents or asking for document-based information'',
           suggestedDocuments = [], relevantHistory_s = [], suggestedAgent = None\<rparr>"
    by (simp add: keywordStage_def Let_def documentMessage_def toLowerCase_def
        toLowerCaseUnit_def documentKeywords_def findRelevantDocuments_def demoStore_def)
  have second: "keywordStage useAgents_getAgentsByRole demoStore greetingMessage 10 =
      Inr \<lparr>shouldSwitch = False, newContext = ContextGeneral, confidence_s = 5 / 10,
           reasoning_s = [], suggestedDocuments = [], relevantHistory_s = [],
           suggestedAgent = None\<rparr>"
    using none lower by (simp add: keywordStage_no_keywords)
  show ?thesis
    using none lower
    by (simp add: analyzeContextSwitch_def Let_def first second someIncluded_append
        analyzeCurrentContextEffectiveness_def ragContext_def)
qed

text \<open>
  C6. The specification asks for a switch to \<open>general\<close> whenever the message has no
  document keywords. The keyword families are tested first and the first match wins: "pomnite" has
  no document keyword, and the document context without documents is left for \<open>history\<close>.
\<close>

theorem rag_degradation_history_keyword:
  "currentContext ragContext = ContextRag \<and> activeDocuments ragContext = []
   \<and> \<not> someIncluded (toLowerCase rememberMessage) documentKeywords
   \<and> \<not> someIncluded (toLowerCase rememberMessage) docKeywords
   \<and> (\<exists>r. analyzeContextSwitch useAgents_getAgentsByRole demoStore 600000 rememberMessage 10
              (Some ragContext) = Inr r
          \<and> shouldSwitch r \<and> newContext r = ContextHistory)"
  by (simp add: analyzeContextSwitch_def keywordStage_def Let_def rememberMessage_def
      toLowerCase_def toLowerCaseUnit_def documentKeywords_def historyKeywords_def
      docKeywords_def ragContext_def)

text \<open>
  C6, amended. For a chat whose current context is \<open>rag\<close> with no active documents, a
  message that (lower-cased) contains no document keyword of either list, no history
  keyword, no agent-task keyword and no technical keyword makes \<open>analyzeContextSwitch\<close>
  return \<open>shouldSwitch = true\<close> with \<open>newContext = general\<close>, at confidence 0.7.
\<close>

theorem rag_degradation:
  assumes "currentContext context' = ContextRag"
    and "activeDocuments context' = []"
    and "\<not> someIncluded (toLowerCase message) documentKeywords"
    and "\<not> someIncluded (toLowerCase message) docKeywords"
    and "\<not> someIncluded (toLowerCase message) historyKeywords"
    and "\<not> someIncluded (toLowerCase message) agentTaskKeywords"
    and "\<not> someIncluded (toLowerCase message) technicalKeywords"
  shows "\<exists>r. analyzeContextSwitch getAgentsByRole st now message chatId' (Some context') = Inr r
            \<and> shouldSwitch r \<and> newContext r = ContextGeneral \<and> confidence_s r = 7 / 10"
  using assms
  by (simp add: analyzeContextSwitch_def keywordStage_no_keywords Let_def
      analyzeCurrentContextEffectiveness_def)

theorem rag_degradation_witness:
  "currentContext ragContext = ContextRag \<and> activeDocuments ragContext = []
   \<and> \<not> someIncluded (toLowerCase greetingMessage) documentKeywords
   \<and> \<not> someIncluded (toLowerCase greetingMessage) docKeywords
   \<and> \<not> someIncluded (toLowerCase greetingMessage) historyKeywords
   \<and> \<not> someIncluded (toLowerCase greetingMessage) agentTaskKeywords
   \<and> \<not> someIncluded (toLowerCase greetingMessage) technicalKeywords
   \<and> (\<exists>r. analyzeContextSwitch useAgents_getAgentsByRole demoStore 600000 greetingMessage 10
              (Some ragContext) = Inr r
          \<and> shouldSwitch r \<and> newContext r = ContextGeneral \<and> confidence_s r = 7 / 10)"
proof -
  have lower: "toLowerCase greetingMessage = greetingMessage"
    by (simp add: greetingMessage_def toLowerCase_def toLowerCaseUnit_def)
  have rag: "currentContext ragContext = ContextRag" "activeDocuments ragContext = []"
    by (simp_all add: ragContext_def)
  have none: "\<not> someIncluded (toLowerCase greetingMessage) documentKeywords"
    "\<not> someIncluded (toLowerCase greetingMessage) docKeywords"
    "\<not> someIncluded (toLowerCase greetingMessage) historyKeywords"
    "\<not> someIncluded (toLowerCase greetingMessage) agentTaskKeywords"
    "\<not> someIncluded (toLowerCase greetingMessage) technicalKeywords"
    unfolding lower
    by (simp_all add: greetingMessage_def documentKeywords_def historyKeywords_def
        agentTaskKeywords_def technicalKeywords_def docKeywords_def)
  from rag_degradation [OF rag none, of useAgents_getAgentsByRole demoStore 600000 10] rag none
  show ?thesis by simp
qed

section \<open>Properties of the feedback engine\<close>

lemma extend_simps [simp]:
  "agent_id_f (FeedbackInput.extend f (FeedbackType.fields n)) = agent_id_f f"
  "feedback_type (FeedbackInput.extend f (FeedbackType.fields n)) = feedback_type f"
  "user_feedback (FeedbackInput.extend f (FeedbackType.fields n)) = user_feedback f"
  "id_f (FeedbackInput.extend f (FeedbackType.fields n)) = n"
  by (simp_all add: FeedbackInput.defs FeedbackType.defs)

lemma generateImprovedPrompt_appends:
  "\<exists>rest. fst (generateImprovedPrompt agent feedback analysis) = system_prompt agent @ rest"
  by (simp add: generateImprovedPrompt_def Let_def split: prod.splits)

lemma generateImprovedPrompt_accuracy:
  assumes "Accuracy \<in> set (commonIssues analysis)"
  shows "\<exists>rest. fst (generateImprovedPrompt agent feedback analysis)
           = system_prompt agent @ section_accuracy @ rest"
  using assms by (simp add: generateImprovedPrompt_def Let_def split: prod.splits)

lemma section_accuracy_nonempty: "section_accuracy \<noteq> []"
  by (simp add: section_accuracy_def)

lemma getAgentById_Some:
  assumes "getAgentById st agentId' = Some agent"
  shows "\<exists>u. user st = Some u
           \<and> filter (\<lambda>a. id_a a = agentId' \<and> user_id_a a = u) (agents_tbl st) = [agent]"
  using assms by (auto simp: getAgentById_def split: option.splits list.splits)

lemma filter_map_update:
  assumes "\<And>a. P (g a) = P a"
  shows "filter P (map (\<lambda>a. if P a then g a else a) xs) = map g (filter P xs)"
  using assms by (induction xs) auto

lemma updateAgent_found:
  assumes "getAgentById st agentId' = Some agent"
  shows "\<exists>st'. updateAgent st agentId' p = (None, st')
           \<and> getAgentById st' agentId' = Some (agent\<lparr>system_prompt := p\<rparr>)
           \<and> agent_feedback st' = agent_feedback st
           \<and> prompt_improvement_logs st' = prompt_improvement_logs st
           \<and> next_uuid st' = next_uuid st"
proof -
  from getAgentById_Some [OF assms] obtain u where
    u: "user st = Some u"
    and one: "filter (\<lambda>a. id_a a = agentId' \<and> user_id_a a = u) (agents_tbl st) = [agent]"
    by blast
  let ?P = "\<lambda>a. id_a a = agentId' \<and> user_id_a a = u"
  have "filter ?P (map (\<lambda>a. if ?P a then a\<lparr>system_prompt := p\<rparr> else a) (agents_tbl st))
      = map (\<lambda>a. a\<lparr>system_prompt := p\<rparr>) (filter ?P (agents_tbl st))"
    by (rule filter_map_update) simp
  with u one show ?thesis
    by (simp add: updateAgent_def getAgentById_def Let_def)
qed

lemma collectFeedback_few:
  assumes "length (filter (\<lambda>f. agent_id_f f = agent_id_f feedback) (agent_feedback st)) < 2"
  shows "collectFeedback st feedback =
           (FeedbackInput.extend feedback (FeedbackType.fields (next_uuid st)),
            st\<lparr>agent_feedback := agent_feedback st @
                  [FeedbackInput.extend feedback (FeedbackType.fields (next_uuid st))],
               next_uuid := next_uuid st + 1\<rparr>)"
  using assms
  by (simp add: collectFeedback_def analyzeFeedbackForImprovement_def recentFeedback_def Let_def)

lemma accuracy_is_common:
  assumes "someIncluded (toLowerCase (user_feedback a)) patterns_accuracy"
    and "someIncluded (toLowerCase (user_feedback b)) patterns_accuracy"
  shows "Accuracy \<in> set (identifyCommonIssues (a # b # rest))"
  using assms by (simp add: identifyCommonIssues_def patterns_def Let_def)

lemma getAgentById_frame:
  assumes "user st' = user st" and "agents_tbl st' = agents_tbl st"
  shows "getAgentById st' agentId' = getAgentById st agentId'"
  using assms by (simp add: getAgentById_def split: option.splits)

lemma collectFeedback_third:
  assumes agent: "getAgentById st aid = Some agent"
    and earlier: "filter (\<lambda>f. agent_id_f f = aid) (agent_feedback st) = [d1, d2]"
    and f: "agent_id_f f = aid" "feedback_type f = Correction"
      "someIncluded (toLowerCase (user_feedback f)) patterns_accuracy"
    and d: "feedback_type d1 = Correction" "feedback_type d2 = Correction"
      "someIncluded (toLowerCase (user_feedback d2)) patterns_accuracy"
  shows "\<exists>log st'.
           collectFeedback st f = (FeedbackInput.extend f (FeedbackType.fields (next_uuid st)), st')
         \<and> prompt_improvement_logs st' = prompt_improvement_logs st @ [log]
         \<and> agent_id_l log = aid
         \<and> old_prompt log = system_prompt agent
         \<and> strict_prefix (old_prompt log) (new_prompt log)
         \<and> feedback_ids log = [next_uuid st, id_f d2, id_f d1]
         \<and> getAgentById st' aid = Some (agent\<lparr>system_prompt := new_prompt log\<rparr>)"
proof -
  let ?d3 = "FeedbackInput.extend f (FeedbackType.fields (next_uuid st))"
  let ?st1 = "st\<lparr>agent_feedback := agent_feedback st @ [?d3], next_uuid := next_uuid st + 1\<rparr>"
  let ?recent = "[?d3, d2, d1]"
  let ?analysis = "analyzeAggregatedFeedback ?recent"
  have recent: "recentFeedback ?st1 aid = ?recent"
    using earlier f by (simp add: recentFeedback_def)
  have improve: "shouldImprove ?analysis"
    using f d by (simp add: analyzeAggregatedFeedback_def Let_def)
  have "Accuracy \<in> set (commonIssues ?analysis)"
    using accuracy_is_common [of ?d3 d2 "[d1]"] f d
    by (simp add: analyzeAggregatedFeedback_def Let_def)
  from generateImprovedPrompt_accuracy [OF this, of agent ?recent] obtain rest where
    prompt: "fst (generateImprovedPrompt agent ?recent ?analysis)
               = system_prompt agent @ section_accuracy @ rest"
    by blast
  obtain p r where gen: "generateImprovedPrompt agent ?recent ?analysis = (p, r)"
    by (cases "generateImprovedPrompt agent ?recent ?analysis")
  with prompt have p: "p = system_prompt agent @ section_accuracy @ rest" by simp
  let ?log = "\<lparr>id_l = next_uuid st + 1, agent_id_l = aid, old_prompt = system_prompt agent,
                new_prompt = p, improvement_reason = r, feedback_ids = map id_f ?recent,
                performance_before = performance_metrics agent\<rparr>"
  let ?st2 = "?st1\<lparr>prompt_improvement_logs := prompt_improvement_logs ?st1 @ [?log],
                   next_uuid := next_uuid ?st1 + 1\<rparr>"
  have "getAgentById ?st1 aid = getAgentById st aid" "getAgentById ?st2 aid = getAgentById st aid"
    by (rule getAgentById_frame; simp)+
  with agent have agent1: "getAgentById ?st1 aid = Some agent"
    and "getAgentById ?st2 aid = Some agent"
    by simp_all
  from updateAgent_found [OF this(2), of p] obtain st' where
    upd: "updateAgent ?st2 aid p = (None, st')"
    and found: "getAgentById st' aid = Some (agent\<lparr>system_prompt := p\<rparr>)"
    and logs: "prompt_improvement_logs st' = prompt_improvement_logs ?st2"
    by blast
  have "suggestPromptImprovement ?st1 aid ?recent ?analysis = (None, st')"
    using agent1 gen upd by (simp add: suggestPromptImprovement_def Let_def)
  with recent improve f have "collectFeedback st f = (?d3, st')"
    by (simp add: collectFeedback_def analyzeFeedbackForImprovement_def Let_def)
  moreover have "prompt_improvement_logs st' = prompt_improvement_logs st @ [?log]"
    using logs by simp
  moreover have "strict_prefix (old_prompt ?log) (new_prompt ?log)"
    using p section_accuracy_nonempty by (simp add: strict_prefix_def prefix_def)
  ultimately show ?thesis
    using found by (intro exI [of _ ?log] exI [of _ st']) simp
qed


text \<open>
  Every recording analyses the ten newest records of the agent, so from the third record on
  each recording can improve the prompt again. More than three tenths of negative feedback
  suffice.
\<close>

lemma shouldImprove_negative_ratio:
  assumes "3 * length feedback
             < 10 * length (filter (\<lambda>f. feedback_type f = Correction
                                          \<or> feedback_type f = Improvement) feedback)"
  shows "shouldImprove (analyzeAggregatedFeedback feedback)"
proof -
  let ?n = "length (filter (\<lambda>f. feedback_type f = Correction
                                  \<or> feedback_type f = Improvement) feedback)"
  from assms have pos: "0 < length feedback"
    by (cases feedback) simp_all
  from assms have "(3 :: rat) * of_nat (length feedback) < 10 * of_nat ?n"
    by (metis (no_types, lifting) of_nat_less_iff of_nat_mult of_nat_numeral)
  with pos have "(3 / 10 :: rat) < of_nat ?n / of_nat (length feedback)"
    by (simp add: field_simps)
  then show ?thesis
    by (simp add: analyzeAggregatedFeedback_def Let_def)
qed

lemma collectFeedback_improves:
  assumes agent: "getAgentById st aid = Some agent"
    and f: "agent_id_f f = aid"
    and recent: "recentFeedback
                   (st\<lparr>agent_feedback := agent_feedback st @
                          [FeedbackInput.extend f (FeedbackType.fields (next_uuid st))],
                       next_uuid := next_uuid st + 1\<rparr>) aid = recent"
    and three: "3 \<le> length recent"
    and improve: "shouldImprove (analyzeAggregatedFeedback recent)"
  shows "\<exists>log st'.
           collectFeedback st f = (FeedbackInput.extend f (FeedbackType.fields (next_uuid st)), st')
         \<and> prompt_improvement_logs st' = prompt_improvement_logs st @ [log]
         \<and> agent_id_l log = aid
         \<and> old_prompt log = system_prompt agent
         \<and> prefix (old_prompt log) (new_prompt log)
         \<and> feedback_ids log = map id_f recent
         \<and> getAgentById st' aid = Some (agent\<lparr>system_prompt := new_prompt log\<rparr>)
         \<and> agent_feedback st' = agent_feedback st @
               [FeedbackInput.extend f (FeedbackType.fields (next_uuid st))]
         \<and> next_uuid st' = next_uuid st + 2"
proof -
  let ?d = "FeedbackInput.extend f (FeedbackType.fields (next_uuid st))"
  let ?st1 = "st\<lparr>agent_feedback := agent_feedback st @ [?d], next_uuid := next_uuid st + 1\<rparr>"
  let ?analysis = "analyzeAggregatedFeedback recent"
  from generateImprovedPrompt_appends [of agent recent ?analysis] obtain rest where
    prompt: "fst (generateImprovedPrompt agent recent ?analysis) = system_prompt agent @ rest"
    by blast
  obtain p r where gen: "generateImprovedPrompt agent recent ?analysis = (p, r)"
    by (cases "generateImprovedPrompt agent recent ?analysis")
  with prompt have p: "p = system_prompt agent @ rest" by simp
  let ?log = "\<lparr>id_l = next_uuid st + 1, agent_id_l = aid, old_prompt = system_prompt agent,
                new_prompt = p, improvement_reason = r, feedback_ids = map id_f recent,
                performance_before = performance_metrics agent\<rparr>"
  let ?st2 = "?st1\<lparr>prompt_improvement_logs := prompt_improvement_logs ?st1 @ [?log],
                   next_uuid := next_uuid ?st1 + 1\<rparr>"
  have "getAgentById ?st1 aid = getAgentById st aid" "getAgentById ?st2 aid = getAgentById st aid"
    by (rule getAgentById_frame; simp)+
  with agent have agent1: "getAgentById ?st1 aid = Some agent"
    and "getAgentById ?st2 aid = Some agent"
    by simp_all
  from updateAgent_found [OF this(2), of p] obtain st' where
    upd: "updateAgent ?st2 aid p = (None, st')"
    and found: "getAgentById st' aid = Some (agent\<lparr>system_prompt := p\<rparr>)"
    and logs: "prompt_improvement_logs st' = prompt_improvement_logs ?st2"
    and rows: "agent_feedback st' = agent_feedback ?st2"
    and next': "next_uuid st' = next_uuid ?st2"
    by blast
  have "suggestPromptImprovement ?st1 aid recent ?analysis = (None, st')"
    using agent1 gen upd by (simp add: suggestPromptImprovement_def Let_def)
  with recent three improve f have "collectFeedback st f = (?d, st')"
    by (simp add: collectFeedback_def analyzeFeedbackForImprovement_def Let_def)
  moreover have "prompt_improvement_logs st' = prompt_improvement_logs st @ [?log]"
    using logs by simp
  moreover have "prefix (old_prompt ?log) (new_prompt ?log)"
    using p by simp
  moreover have "agent_feedback st' = agent_feedback st @ [?d]" "next_uuid st' = next_uuid st + 2"
    using rows next' by simp_all
  ultimately show ?thesis
    using found by (intro exI [of _ ?log] exI [of _ st']) simp
qed

text \<open>
  C9. The specification asks for exactly one improvement-log entry after three corrections
  in a row, whatever the agent's earlier feedback. Agent A has been praised twice (records
  50 and 51) when the three corrections arrive. The first correction is the third record of
  the agent and one negative record in three is above the ratio of 0.3: it already
  rewrites the prompt and writes a log entry. So do the second and the third: the three
  corrections leave three log entries, and the last references the two praise records
  beside the three corrections.
\<close>

theorem earlier_feedback_logs_every_correction:
  "getAgentById praisedStore 1 = Some (agentRow 1 ''researcher'')
   \<and> prompt_improvement_logs praisedStore = []
   \<and> map feedback_type [correction1, correction2, correction3]
       = [Correction, Correction, Correction]
   \<and> someIncluded (toLowerCase (user_feedback correction1)) patterns_accuracy
   \<and> someIncluded (toLowerCase (user_feedback correction2)) patterns_accuracy
   \<and> someIncluded (toLowerCase (user_feedback correction3)) patterns_accuracy
   \<and> (case collectFeedback praisedStore correction1 of (d1, s1) \<Rightarrow>
       case collectFeedback s1 correction2 of (d2, s2) \<Rightarrow>
       case collectFeedback s2 correction3 of (d3, s3) \<Rightarrow>
         (id_f d1, id_f d2, id_f d3) = (100, 102, 104)
       \<and> map feedback_ids (prompt_improvement_logs s1) = [[100, 51, 50]]
       \<and> map feedback_ids (prompt_improvement_logs s3)
           = [[100, 51, 50], [102, 100, 51, 50], [104, 102, 100, 51, 50]])"
proof -
  let ?A = "agentRow 1 ''researcher''"
  have agent: "getAgentById praisedStore 1 = Some ?A"
    by (simp add: getAgentById_def praisedStore_def demoStore_def agentRow_def)
  have store: "prompt_improvement_logs praisedStore = []"
    "agent_feedback praisedStore = [praise 50, praise 51]" "next_uuid praisedStore = 100"
    by (simp_all add: praisedStore_def demoStore_def)
  have shape: "agent_id_f correction1 = 1" "feedback_type correction1 = Correction"
    "agent_id_f correction2 = 1" "feedback_type correction2 = Correction"
    "agent_id_f correction3 = 1" "feedback_type correction3 = Correction"
    "agent_id_f (praise i) = 1" "feedback_type (praise i) = Praise" "id_f (praise i) = i" for i
    by (simp_all add: correction1_def correction2_def correction3_def correction_def praise_def)
  have accuracy: "someIncluded (toLowerCase (user_feedback correction1)) patterns_accuracy"
    "someIncluded (toLowerCase (user_feedback correction2)) patterns_accuracy"
    "someIncluded (toLowerCase (user_feedback correction3)) patterns_accuracy"
    by (simp_all add: correction1_def correction2_def correction3_def correction_def
        toLowerCase_def toLowerCaseUnit_def patterns_accuracy_def)
  let ?d1 = "FeedbackInput.extend correction1 (FeedbackType.fields 100)"
  let ?d2 = "FeedbackInput.extend correction2 (FeedbackType.fields 102)"
  let ?d3 = "FeedbackInput.extend correction3 (FeedbackType.fields 104)"
  have "\<exists>log st'. collectFeedback praisedStore correction1
            = (FeedbackInput.extend correction1 (FeedbackType.fields (next_uuid praisedStore)), st')
        \<and> prompt_improvement_logs st' = prompt_improvement_logs praisedStore @ [log]
        \<and> agent_id_l log = 1 \<and> old_prompt log = system_prompt ?A
        \<and> prefix (old_prompt log) (new_prompt log)
        \<and> feedback_ids log = map id_f [?d1, praise 51, praise 50]
        \<and> getAgentById st' 1 = Some (?A\<lparr>system_prompt := new_prompt log\<rparr>)
        \<and> agent_feedback st' = agent_feedback praisedStore @
              [FeedbackInput.extend correction1 (FeedbackType.fields (next_uuid praisedStore))]
        \<and> next_uuid st' = next_uuid praisedStore + 2"
    by (rule collectFeedback_improves [OF agent shape(1)])
      (simp_all add: recentFeedback_def store shape shouldImprove_negative_ratio)
  then obtain l1 s1 where
    c1: "collectFeedback praisedStore correction1 = (?d1, s1)"
    and s1: "prompt_improvement_logs s1 = [l1]" "feedback_ids l1 = [100, 51, 50]"
      "agent_feedback s1 = [praise 50, praise 51, ?d1]" "next_uuid s1 = 102"
    and a1: "getAgentById s1 1 = Some (?A\<lparr>system_prompt := new_prompt l1\<rparr>)"
    by (auto simp: store shape)
  have "\<exists>log st'. collectFeedback s1 correction2
            = (FeedbackInput.extend correction2 (FeedbackType.fields (next_uuid s1)), st')
        \<and> prompt_improvement_logs st' = prompt_improvement_logs s1 @ [log]
        \<and> agent_id_l log = 1 \<and> old_prompt log = system_prompt (?A\<lparr>system_prompt := new_prompt l1\<rparr>)
        \<and> prefix (old_prompt log) (new_prompt log)
        \<and> feedback_ids log = map id_f [?d2, ?d1, praise 51, praise 50]
        \<and> getAgentById st' 1
            = Some (?A\<lparr>system_prompt := new_prompt l1, system_prompt := new_prompt log\<rparr>)
        \<and> agent_feedback st' = agent_feedback s1 @
              [FeedbackInput.extend correction2 (FeedbackType.fields (next_uuid s1))]
        \<and> next_uuid st' = next_uuid s1 + 2"
    by (rule collectFeedback_improves [OF a1 shape(3)])
      (simp_all add: recentFeedback_def s1 shape shouldImprove_negative_ratio)
  then obtain l2 s2 where
    c2: "collectFeedback s1 correction2 = (?d2, s2)"
    and s2: "prompt_improvement_logs s2 = [l1, l2]" "feedback_ids l2 = [102, 100, 51, 50]"
      "agent_feedback s2 = [praise 50, praise 51, ?d1, ?d2]" "next_uuid s2 = 104"
    and a2: "getAgentById s2 1 = Some (?A\<lparr>system_prompt := new_prompt l2\<rparr>)"
    by (auto simp: s1 shape)
  have "\<exists>log st'. collectFeedback s2 correction3
            = (FeedbackInput.extend correction3 (FeedbackType.fields (next_uuid s2)), st')
        \<and> prompt_improvement_logs st' = prompt_improvement_logs s2 @ [log]
        \<and> agent_id_l log = 1 \<and> old_prompt log = system_prompt (?A\<lparr>system_prompt := new_prompt l2\<rparr>)
        \<and> prefix (old_prompt log) (new_prompt log)
        \<and> feedback_ids log = map id_f [?d3, ?d2, ?d1, praise 51, praise 50]
        \<and> getAgentById st' 1
            = Some (?A\<lparr>system_prompt := new_prompt l2, system_prompt := new_prompt log\<rparr>)
        \<and> agent_feedback st' = agent_feedback s2 @
              [FeedbackInput.extend correction3 (FeedbackType.fields (next_uuid s2))]
        \<and> next_uuid st' = next_uuid s2 + 2"
    by (rule collectFeedback_improves [OF a2 shape(5)])
      (simp_all add: recentFeedback_def s2 shape shouldImprove_negative_ratio)
  then obtain l3 s3 where
    c3: "collectFeedback s2 correction3 = (?d3, s3)"
    and s3: "prompt_improvement_logs s3 = [l1, l2, l3]"
      "feedback_ids l3 = [104, 102, 100, 51, 50]"
    by (auto simp: s2 shape)
  show ?thesis
    using agent store(1) shape accuracy by (simp add: c1 c2 c3 s1 s3 s2)
qed

text \<open>
  C9, amended. An agent the signed-in user owns, with no feedback so far, receives three
  corrections in a row, each with an accuracy keyword in its text. The first two recordings
  change no prompt and write no log entry. The third writes exactly one improvement-log
  entry: its old prompt is the agent's prompt, its new prompt extends the old prompt (the
  old prompt is a proper prefix of it), it references the ids of all three feedback records,
  and the new prompt becomes the agent's system prompt. \<open>getAgentById\<close> and \<open>updateAgent\<close>
  are those of the version of \<open>useAgents\<close> that declares both.
\<close>

theorem three_corrections_improve_prompt:
  assumes agent: "getAgentById st aid = Some agent"
    and fresh: "filter (\<lambda>f. agent_id_f f = aid) (agent_feedback st) = []"
    and f1: "agent_id_f f1 = aid" "feedback_type f1 = Correction"
      "someIncluded (toLowerCase (user_feedback f1)) patterns_accuracy"
    and f2: "agent_id_f f2 = aid" "feedback_type f2 = Correction"
      "someIncluded (toLowerCase (user_feedback f2)) patterns_accuracy"
    and f3: "agent_id_f f3 = aid" "feedback_type f3 = Correction"
      "someIncluded (toLowerCase (user_feedback f3)) patterns_accuracy"
  shows "case collectFeedback st f1 of (d1, s1) \<Rightarrow>
         case collectFeedback s1 f2 of (d2, s2) \<Rightarrow>
         case collectFeedback s2 f3 of (d3, s3) \<Rightarrow>
           prompt_improvement_logs s1 = prompt_improvement_logs st
         \<and> getAgentById s1 aid = Some agent
         \<and> prompt_improvement_logs s2 = prompt_improvement_logs st
         \<and> getAgentById s2 aid = Some agent
         \<and> (\<exists>log. prompt_improvement_logs s3 = prompt_improvement_logs st @ [log]
                \<and> agent_id_l log = aid
                \<and> old_prompt log = system_prompt agent
                \<and> strict_prefix (old_prompt log) (new_prompt log)
                \<and> set (feedback_ids log) = {id_f d1, id_f d2, id_f d3}
                \<and> distinct [id_f d1, id_f d2, id_f d3]
                \<and> getAgentById s3 aid = Some (agent\<lparr>system_prompt := new_prompt log\<rparr>))"
proof -
  let ?d1 = "FeedbackInput.extend f1 (FeedbackType.fields (next_uuid st))"
  let ?s1 = "st\<lparr>agent_feedback := agent_feedback st @ [?d1], next_uuid := next_uuid st + 1\<rparr>"
  let ?d2 = "FeedbackInput.extend f2 (FeedbackType.fields (next_uuid ?s1))"
  let ?s2 = "?s1\<lparr>agent_feedback := agent_feedback ?s1 @ [?d2], next_uuid := next_uuid ?s1 + 1\<rparr>"
  have c1: "collectFeedback st f1 = (?d1, ?s1)"
    using fresh f1 by (intro collectFeedback_few) simp
  have c2: "collectFeedback ?s1 f2 = (?d2, ?s2)"
    using fresh f1 f2 by (intro collectFeedback_few) simp
  have a1: "getAgentById ?s1 aid = Some agent"
    using agent getAgentById_frame [of ?s1 st aid] by simp
  have a2: "getAgentById ?s2 aid = Some agent"
    using agent getAgentById_frame [of ?s2 st aid] by simp
  have earlier: "filter (\<lambda>f. agent_id_f f = aid) (agent_feedback ?s2) = [?d1, ?d2]"
    using fresh f1 f2 by simp
  from collectFeedback_third [OF a2 earlier f3, of ] f1 f2
  obtain log s3 where
    c3: "collectFeedback ?s2 f3 = (FeedbackInput.extend f3 (FeedbackType.fields (next_uuid ?s2)), s3)"
    and log: "prompt_improvement_logs s3 = prompt_improvement_logs ?s2 @ [log]"
      "agent_id_l log = aid" "old_prompt log = system_prompt agent"
      "strict_prefix (old_prompt log) (new_prompt log)"
      "feedback_ids log = [next_uuid ?s2, id_f ?d2, id_f ?d1]"
      "getAgentById s3 aid = Some (agent\<lparr>system_prompt := new_prompt log\<rparr>)"
    by auto
  have ids: "set (feedback_ids log) = {next_uuid st, next_uuid st + 1, next_uuid st + 2}"
    using log(5) by auto
  show ?thesis
    unfolding c1 c2 c3 prod.case
    using a1 a2 log ids by (auto intro!: exI [of _ log])
qed

theorem three_corrections_improve_prompt_witness:
  "getAgentById demoStore 1 = Some (agentRow 1 ''researcher'')
   \<and> filter (\<lambda>f. agent_id_f f = 1) (agent_feedback demoStore) = []
   \<and> someIncluded (toLowerCase (user_feedback correction1)) patterns_accuracy
   \<and> someIncluded (toLowerCase (user_feedback correction2)) patterns_accuracy
   \<and> someIncluded (toLowerCase (user_feedback correction3)) patterns_accuracy
   \<and> (case collectFeedback demoStore correction1 of (d1, s1) \<Rightarrow>
       case collectFeedback s1 correction2 of (d2, s2) \<Rightarrow>
       case collectFeedback s2 correction3 of (d3, s3) \<Rightarrow>
         prompt_improvement_logs s1 = [] \<and> prompt_improvement_logs s2 = []
       \<and> (\<exists>log. prompt_improvement_logs s3 = [log]
              \<and> old_prompt log = ascii ''Be helpful.''
              \<and> strict_prefix (old_prompt log) (new_prompt log)
              \<and> set (feedback_ids log) = {id_f d1, id_f d2, id_f d3}
              \<and> getAgentById s3 1
                  = Some ((agentRow 1 ''researcher'')\<lparr>system_prompt := new_prompt log\<rparr>)))"
proof -
  have agent: "getAgentById demoStore 1 = Some (agentRow 1 ''researcher'')"
    by (simp add: getAgentById_def demoStore_def agentRow_def)
  have fresh: "filter (\<lambda>f. agent_id_f f = 1) (agent_feedback demoStore) = []"
    by (simp add: demoStore_def)
  have shape: "agent_id_f correction1 = 1" "feedback_type correction1 = Correction"
    "agent_id_f correction2 = 1" "feedback_type correction2 = Correction"
    "agent_id_f correction3 = 1" "feedback_type correction3 = Correction"
    by (simp_all add: correction1_def correction2_def correction3_def correction_def)
  have accuracy: "someIncluded (toLowerCase (user_feedback correction1)) patterns_accuracy"
    "someIncluded (toLowerCase (user_feedback correction2)) patterns_accuracy"
    "someIncluded (toLowerCase (user_feedback correction3)) patterns_accuracy"
    by (simp_all add: correction1_def correction2_def correction3_def correction_def
        toLowerCase_def toLowerCaseUnit_def patterns_accuracy_def)
  have logs: "prompt_improvement_logs demoStore = []"
    and prompt: "\<And>i r. system_prompt (agentRow i r) = ascii ''Be helpful.''"
    by (simp_all add: demoStore_def agentRow_def)
  from three_corrections_improve_prompt
         [OF agent fresh shape(1,2) accuracy(1) shape(3,4) accuracy(2) shape(5,6) accuracy(3)]
       agent fresh accuracy
  show ?thesis
    by (auto simp: logs prompt split: prod.splits)
qed

end
